theory Spec2Isabelle
  imports Main
begin

section \<open>JavaScript values\<close>

text \<open>
  The values that cross the program's interfaces are JSON values: tool arguments, request
  bodies, upstream payloads and the text of the result envelope. Strings are their UTF-8
  byte sequences. An object keeps its properties in insertion order, as a JavaScript object
  does; a property is read with \<open>map_of\<close>. The value \<open>undefined\<close> is \<open>None\<close> of
  \<open>json option\<close>. Numbers are the integers: no number that the program builds or inspects
  has a fraction. The numbers of an upstream payload pass through the program untouched;
  their text is modelled for integers below \<open>10^21\<close> in magnitude, which JavaScript
  prints in full.
\<close>

datatype json =
    JNull
  | JBool bool
  | JNum int
  | JStr string
  | JArr "json list"
  | JObj "(string \<times> json) list"

text \<open>Truthiness, as \<open>if (value)\<close> and \<open>body ? ... : ...\<close> test it.\<close>

fun truthy :: "json \<Rightarrow> bool" where
  "truthy JNull = False"
| "truthy (JBool b) = b"
| "truthy (JNum n) = (n \<noteq> 0)"
| "truthy (JStr s) = (s \<noteq> [])"
| "truthy (JArr xs) = True"
| "truthy (JObj ps) = True"

subsection \<open>JSON.stringify\<close>

definition hex_digit :: "nat \<Rightarrow> char" where
  "hex_digit n = ''0123456789abcdef'' ! (n mod 16)"

definition dec_digit :: "nat \<Rightarrow> char" where
  "dec_digit n = ''0123456789'' ! (n mod 10)"

fun show_nat :: "nat \<Rightarrow> string" where
  "show_nat n = (if n < 10 then [dec_digit n] else show_nat (n div 10) @ [dec_digit n])"

declare show_nat.simps [simp del]

definition show_int :: "int \<Rightarrow> string" where
  "show_int i = (if i < 0 then CHR ''-'' # show_nat (nat (- i)) else show_nat (nat i))"

text \<open>QuoteJSONString of ECMA-262, on bytes.\<close>

definition escape_char :: "char \<Rightarrow> string" where
  "escape_char c =
     (if c = CHR 0x22 then [CHR 0x5C, CHR 0x22]
      else if c = CHR 0x5C then [CHR 0x5C, CHR 0x5C]
      else if c = CHR 0x08 then [CHR 0x5C, CHR ''b'']
      else if c = CHR 0x0C then [CHR 0x5C, CHR ''f'']
      else if c = CHR 0x0A then [CHR 0x5C, CHR ''n'']
      else if c = CHR 0x0D then [CHR 0x5C, CHR ''r'']
      else if c = CHR 0x09 then [CHR 0x5C, CHR ''t'']
      else if of_char c < (0x20 :: nat)
        then [CHR 0x5C, CHR ''u'', CHR ''0'', CHR ''0'',
              hex_digit (of_char c div 16), hex_digit (of_char c)]
      else [c])"

definition quote :: "string \<Rightarrow> string" where
  "quote s = CHR 0x22 # concat (map escape_char s) @ [CHR 0x22]"

fun join :: "string \<Rightarrow> string list \<Rightarrow> string" where
  "join sep [] = []"
| "join sep [x] = x"
| "join sep (x # y # ys) = x @ sep @ join sep (y # ys)"

text \<open>
  SerializeJSONProperty with the gap \<open>gap\<close> (empty for \<open>JSON.stringify(v)\<close>, two spaces
  for \<open>JSON.stringify(v, null, 2)\<close>) at the indentation \<open>ind\<close>.
\<close>

fun serialize :: "string \<Rightarrow> string \<Rightarrow> json \<Rightarrow> string" where
  "serialize gap ind JNull = ''null''"
| "serialize gap ind (JBool b) = (if b then ''true'' else ''false'')"
| "serialize gap ind (JNum n) = show_int n"
| "serialize gap ind (JStr s) = quote s"
| "serialize gap ind (JArr xs) =
     (if xs = [] then ''[]''
      else if gap = [] then ''['' @ join '','' (map (serialize gap (ind @ gap)) xs) @ '']''
      else ''['' @ [CHR 0x0A] @ (ind @ gap)
           @ join ('','' @ [CHR 0x0A] @ (ind @ gap)) (map (serialize gap (ind @ gap)) xs)
           @ [CHR 0x0A] @ ind @ '']'')"
| "serialize gap ind (JObj ps) =
     (if ps = [] then ''{}''
      else if gap = []
        then ''{'' @ join '','' (map (\<lambda>p. quote (fst p) @ '':'' @ serialize gap (ind @ gap) (snd p)) ps)
             @ ''}''
      else ''{'' @ [CHR 0x0A] @ (ind @ gap)
           @ join ('','' @ [CHR 0x0A] @ (ind @ gap))
               (map (\<lambda>p. quote (fst p) @ '': '' @ serialize gap (ind @ gap) (snd p)) ps)
           @ [CHR 0x0A] @ ind @ ''}'')"

definition JSON_stringify :: "json \<Rightarrow> string" where
  "JSON_stringify v = serialize [] [] v"

definition JSON_stringify_pretty :: "json \<Rightarrow> string" where
  "JSON_stringify_pretty v = serialize ''  '' [] v"

text \<open>
  An object literal whose property values may be \<open>undefined\<close>: JSON.stringify leaves such
  properties out.
\<close>

fun object_literal :: "(string \<times> json option) list \<Rightarrow> json" where
  "object_literal ps = JObj (concat (map (\<lambda>(k, v). case v of None \<Rightarrow> [] | Some j \<Rightarrow> [(k, j)]) ps))"

section \<open>The HTTP interface to the upstream\<close>

text \<open>
  What \<open>fetch\<close> is given: the URL, the method, the headers and the body text
  (\<open>None\<close> for \<open>undefined\<close>).
\<close>

record http_request =
  url :: string
  http_method :: string
  headers :: "(string \<times> string) list"
  body :: "string option"

text \<open>
  What \<open>fetch\<close> resolves to. A response body is either null (a response without a body)
  or a byte stream, given here by its text and by what \<open>JSON.parse\<close> makes of that text:
  the parsed value, or the message of the SyntaxError it throws.
\<close>

datatype payload = Null_body | Body string "string + json"

record response =
  status :: nat
  statusText :: string
  payload :: payload

text \<open>
  \<open>fetch\<close> resolves to a response, whatever its status, or rejects: with a TypeError when
  the network fails, or with a value that is no Error, for which the handler has a branch.
\<close>

datatype fetch_outcome =
    Resolved response
  | Rejected_TypeError string
  | Rejected_value json

type_synonym upstream = "http_request \<Rightarrow> fetch_outcome"

section \<open>Errors\<close>

text \<open>
  The issues of a failed zod parse, each with the path of the offending property:
  \<open>Invalid_type\<close> (expected, received) is the issue of \<open>z.string()\<close> and of
  \<open>z.object\<close> for a value of another type; \<open>Invalid_enum_type\<close> (expected, received)
  is the issue of \<open>z.enum\<close> for a value that is no string; \<open>Invalid_enum_value\<close>
  (received, options) is the issue of \<open>z.enum\<close> for a string outside the enumeration.
  The two type issues have the same code and differ in the order in which zod writes
  their properties.
\<close>

datatype zod_issue =
    Invalid_type string string "string list"
  | Invalid_enum_type string string "string list"
  | Invalid_enum_value string "string list" "string list"

text \<open>
  Everything a \<open>throw\<close> can carry through the program. \<open>TaxoMxApiError\<close> is the
  client's own class (statusCode, message, details); \<open>ZodError\<close>, \<open>SyntaxError\<close>
  and \<open>TypeError\<close> are raised by the libraries, \<open>Error\<close> by \<open>new Error(message)\<close>;
  \<open>Thrown_value\<close> is a thrown value that is no instance of \<open>Error\<close>.
\<close>

datatype thrown =
    TaxoMxApiError nat string "json option"
  | ZodError "zod_issue list"
  | Error string
  | SyntaxError string
  | TypeError string
  | Thrown_value json

fun instanceof_TaxoMxApiError :: "thrown \<Rightarrow> bool" where
  "instanceof_TaxoMxApiError (TaxoMxApiError sc m d) = True"
| "instanceof_TaxoMxApiError e = False"

fun instanceof_Error :: "thrown \<Rightarrow> bool" where
  "instanceof_Error (Thrown_value v) = False"
| "instanceof_Error e = True"

definition join_values :: "string list \<Rightarrow> string" where
  "join_values vs = join '' | '' (map (\<lambda>v. [CHR 0x27] @ v @ [CHR 0x27]) vs)"

fun issue_message :: "zod_issue \<Rightarrow> string" where
  "issue_message (Invalid_type expected received path) =
     (if received = ''undefined'' then ''Required''
      else ''Expected '' @ expected @ '', received '' @ received)"
| "issue_message (Invalid_enum_type expected received path) =
     (if received = ''undefined'' then ''Required''
      else ''Expected '' @ expected @ '', received '' @ received)"
| "issue_message (Invalid_enum_value received opts path) =
     ''Invalid enum value. Expected '' @ join_values opts @ '', received ''
       @ [CHR 0x27] @ received @ [CHR 0x27]"

fun issue_json :: "zod_issue \<Rightarrow> json" where
  "issue_json (Invalid_type expected received path) =
     JObj [(''code'', JStr ''invalid_type''), (''expected'', JStr expected),
           (''received'', JStr received), (''path'', JArr (map JStr path)),
           (''message'', JStr (issue_message (Invalid_type expected received path)))]"
| "issue_json (Invalid_enum_type expected received path) =
     JObj [(''expected'', JStr expected), (''received'', JStr received),
           (''code'', JStr ''invalid_type''), (''path'', JArr (map JStr path)),
           (''message'', JStr (issue_message (Invalid_enum_type expected received path)))]"
| "issue_json (Invalid_enum_value received opts path) =
     JObj [(''received'', JStr received), (''code'', JStr ''invalid_enum_value''),
           (''options'', JArr (map JStr opts)), (''path'', JArr (map JStr path)),
           (''message'', JStr (issue_message (Invalid_enum_value received opts path)))]"

text \<open>\<open>error.message\<close>. A ZodError's message is the pretty-printed list of its issues.\<close>

fun message_of :: "thrown \<Rightarrow> string" where
  "message_of (TaxoMxApiError sc m d) = m"
| "message_of (ZodError issues) = JSON_stringify_pretty (JArr (map issue_json issues))"
| "message_of (Error m) = m"
| "message_of (SyntaxError m) = m"
| "message_of (TypeError m) = m"
| "message_of (Thrown_value v) = []"

section \<open>Reading a response body\<close>

text \<open>
  The body of a response is a stream that is read once (Fetch standard, "consume body"):
  \<open>json()\<close> and \<open>text()\<close> reject with a TypeError when the body is not null and has
  been read already, and otherwise read all of it, which marks it as used, before they
  decode; so a \<open>json()\<close> that fails to parse has used the body all the same. \<open>used\<close> is
  the \<open>bodyUsed\<close> flag; both methods return it updated. The messages of the TypeError and
  of the SyntaxError for an empty text are worded as Node's runtime words them.
\<close>

definition body_unusable :: string where
  "body_unusable = ''Body is unusable: Body has already been read''"

definition unusable :: "response \<Rightarrow> bool \<Rightarrow> bool" where
  "unusable r used = (payload r \<noteq> Null_body \<and> used)"

definition response_json :: "response \<Rightarrow> bool \<Rightarrow> (thrown + json) \<times> bool" where
  "response_json r used =
     (if unusable r used then (Inl (TypeError body_unusable), used)
      else case payload r of
        Null_body \<Rightarrow> (Inl (SyntaxError ''Unexpected end of JSON input''), used)
      | Body raw parsed \<Rightarrow>
          (case parsed of Inl m \<Rightarrow> (Inl (SyntaxError m), True) | Inr v \<Rightarrow> (Inr v, True)))"

definition response_text :: "response \<Rightarrow> bool \<Rightarrow> (thrown + string) \<times> bool" where
  "response_text r used =
     (if unusable r used then (Inl (TypeError body_unusable), used)
      else case payload r of
        Null_body \<Rightarrow> (Inr [], used)
      | Body raw parsed \<Rightarrow> (Inr raw, True))"

definition ok :: "response \<Rightarrow> bool" where
  "ok r = (200 \<le> status r \<and> status r \<le> 299)"

section \<open>The upstream client\<close>

record client =
  token :: string
  appBaseUrl :: string
  demoBaseUrl :: string

record client_options =
  opt_token :: string
  opt_appBaseUrl :: "string option"
  opt_demoBaseUrl :: "string option"

text \<open>\<open>a || b\<close> on an optional string: \<open>undefined\<close> and the empty string give \<open>b\<close>.\<close>

fun or_default :: "string option \<Rightarrow> string \<Rightarrow> string" where
  "or_default None d = d"
| "or_default (Some s) d = (if s = [] then d else s)"

definition new_client :: "client_options \<Rightarrow> client" where
  "new_client options =
     \<lparr> token = opt_token options,
       appBaseUrl = or_default (opt_appBaseUrl options) ''https://app.taxo.co'',
       demoBaseUrl = or_default (opt_demoBaseUrl options) ''https://demo.taxo.co'' \<rparr>"

text \<open>
  A client method returns what it resolves to or throws, and the requests it has handed to
  \<open>fetch\<close>, in order.
\<close>

type_synonym 'a io = "(thrown + 'a) \<times> http_request list"

definition request_headers :: "client \<Rightarrow> (string \<times> string) list" where
  "request_headers c =
     [(''Accept'', ''application/json''),
      (''Content-Type'', ''application/json''),
      (''Authorization'', ''Bearer '' @ token c)]"

definition request ::
  "upstream \<Rightarrow> client \<Rightarrow> string \<Rightarrow> string \<Rightarrow> string option \<Rightarrow> json option \<Rightarrow> json io" where
  "request fetch c baseUrl path meth body_opt =
     (let req = \<lparr> url = baseUrl @ path,
                  http_method = (case meth of None \<Rightarrow> ''GET'' | Some m \<Rightarrow> m),
                  headers = request_headers c,
                  body = (case body_opt of
                            None \<Rightarrow> None
                          | Some b \<Rightarrow> if truthy b then Some (JSON_stringify b) else None) \<rparr>
      in
      ((case fetch req of
          Rejected_TypeError m \<Rightarrow> Inl (TypeError m)
        | Rejected_value v \<Rightarrow> Inl (Thrown_value v)
        | Resolved r \<Rightarrow>
            if \<not> ok r then
              (case response_json r False of
                 (Inr v, used) \<Rightarrow>
                   Inl (TaxoMxApiError (status r) (''API request failed: '' @ statusText r) (Some v))
               | (Inl e, used) \<Rightarrow>
                   (case response_text r used of
                      (Inr t, used') \<Rightarrow>
                        Inl (TaxoMxApiError (status r) (''API request failed: '' @ statusText r)
                               (Some (JStr t)))
                    | (Inl e', used') \<Rightarrow> Inl e'))
            else
              (case response_json r False of
                 (Inr v, used) \<Rightarrow> Inr v
               | (Inl e, used) \<Rightarrow> Inl e)),
       [req]))"

definition extractComplianceOpinionByRfc :: "upstream \<Rightarrow> client \<Rightarrow> string \<Rightarrow> json io" where
  "extractComplianceOpinionByRfc fetch c rfc =
     request fetch c (appBaseUrl c) ''/api/extractions/oc/client'' (Some ''POST'')
       (Some (JObj [(''rfc'', JStr rfc)]))"

definition extractComplianceOpinionByAccountant :: "upstream \<Rightarrow> client \<Rightarrow> string \<Rightarrow> json io" where
  "extractComplianceOpinionByAccountant fetch c accountantId =
     request fetch c (appBaseUrl c) ''/api/extractions/oc/accountant'' (Some ''POST'')
       (Some (JObj [(''accountant_id'', JStr accountantId)]))"

definition extractComplianceOpinionAll :: "upstream \<Rightarrow> client \<Rightarrow> json io" where
  "extractComplianceOpinionAll fetch c =
     request fetch c (appBaseUrl c) ''/api/extractions/oc/extract-all'' (Some ''POST'') None"

definition getComplianceOpinion :: "upstream \<Rightarrow> client \<Rightarrow> string \<Rightarrow> json io" where
  "getComplianceOpinion fetch c rfc =
     request fetch c (appBaseUrl c) (''/api/extractions/oc/client/'' @ rfc) None None"

definition extractTaxStatusByRfc :: "upstream \<Rightarrow> client \<Rightarrow> string \<Rightarrow> json io" where
  "extractTaxStatusByRfc fetch c rfc =
     request fetch c (appBaseUrl c) ''/api/extractions/csf/client'' (Some ''POST'')
       (Some (JObj [(''rfc'', JStr rfc)]))"

definition extractTaxStatusByAccountant :: "upstream \<Rightarrow> client \<Rightarrow> string \<Rightarrow> json io" where
  "extractTaxStatusByAccountant fetch c accountantId =
     request fetch c (appBaseUrl c) ''/api/extractions/csf/accountant'' (Some ''POST'')
       (Some (JObj [(''accountant_id'', JStr accountantId)]))"

definition extractTaxStatusAll :: "upstream \<Rightarrow> client \<Rightarrow> json io" where
  "extractTaxStatusAll fetch c =
     request fetch c (appBaseUrl c) ''/api/extractions/csf/extract-all'' (Some ''POST'') None"

definition getTaxStatus :: "upstream \<Rightarrow> client \<Rightarrow> string \<Rightarrow> json io" where
  "getTaxStatus fetch c rfc =
     request fetch c (appBaseUrl c) (''/api/extractions/csf/client/'' @ rfc) None None"

text \<open>The parameter objects of the two CFDI methods are given property by property.\<close>

definition extractCfdiByRfc ::
  "upstream \<Rightarrow> client \<Rightarrow> string \<Rightarrow> string \<Rightarrow> string \<Rightarrow> string \<Rightarrow> json io" where
  "extractCfdiByRfc fetch c rfc startDate endDate extractionType =
     request fetch c (appBaseUrl c) ''/api/extractions/cfdi/client'' (Some ''POST'')
       (Some (JObj [(''rfc'', JStr rfc),
                    (''start_date'', JStr startDate),
                    (''end_date'', JStr endDate),
                    (''extraction_type'', JStr extractionType)]))"

definition extractCfdiByAccountant ::
  "upstream \<Rightarrow> client \<Rightarrow> string \<Rightarrow> string \<Rightarrow> string \<Rightarrow> json io" where
  "extractCfdiByAccountant fetch c accountantId startDate endDate =
     request fetch c (appBaseUrl c) ''/api/extractions/cfdi/accountant'' (Some ''POST'')
       (Some (JObj [(''accountant_id'', JStr accountantId),
                    (''start_date'', JStr startDate),
                    (''end_date'', JStr endDate)]))"

definition getMonthlyTaxReport ::
  "upstream \<Rightarrow> client \<Rightarrow> string \<Rightarrow> string \<Rightarrow> string \<Rightarrow> json io" where
  "getMonthlyTaxReport fetch c rfc year month =
     request fetch c (demoBaseUrl c)
       (''/api/v1/tax-reports/monthly/'' @ rfc @ ''/'' @ year @ ''/'' @ month) None None"

definition getContacts :: "upstream \<Rightarrow> client \<Rightarrow> string \<Rightarrow> json io" where
  "getContacts fetch c rfc =
     request fetch c (demoBaseUrl c) (''/api/v1/contacts/'' @ rfc) None None"

subsection \<open>URLSearchParams\<close>

text \<open>
  The application/x-www-form-urlencoded serializer of the URL standard, on bytes: letters,
  digits and \<open>* - . _\<close> stay, a space becomes \<open>+\<close>, every other byte is percent-encoded.
\<close>

definition upper_hex_digit :: "nat \<Rightarrow> char" where
  "upper_hex_digit n = ''0123456789ABCDEF'' ! (n mod 16)"

definition is_alnum :: "char \<Rightarrow> bool" where
  "is_alnum ch =
     (let n = (of_char ch :: nat)
      in (48 \<le> n \<and> n \<le> 57) \<or> (65 \<le> n \<and> n \<le> 90) \<or> (97 \<le> n \<and> n \<le> 122))"

definition urlencode_byte :: "char \<Rightarrow> string" where
  "urlencode_byte ch =
     (if ch = CHR '' '' then ''+''
      else if is_alnum ch \<or> ch \<in> set ''*-._'' then [ch]
      else [CHR ''%'', upper_hex_digit (of_char ch div 16), upper_hex_digit (of_char ch)])"

definition urlencode :: "string \<Rightarrow> string" where
  "urlencode s = concat (map urlencode_byte s)"

definition params_toString :: "(string \<times> string) list \<Rightarrow> string" where
  "params_toString ps = join ''&'' (map (\<lambda>(k, v). urlencode k @ ''='' @ urlencode v) ps)"

text \<open>
  \<open>getInvoices\<close>: the filters object is the list of its entries (a property that is
  \<open>undefined\<close> holds \<open>None\<close>); \<open>params\<close> are the pairs appended to the URLSearchParams.
\<close>

definition invoice_params :: "(string \<times> string option) list option \<Rightarrow> (string \<times> string) list" where
  "invoice_params filters =
     (case filters of
        None \<Rightarrow> []
      | Some entries \<Rightarrow>
          concat (map (\<lambda>(key, v). case v of
                                     None \<Rightarrow> []
                                   | Some s \<Rightarrow> if s \<noteq> [] then [(key, s)] else []) entries))"

definition invoices_path :: "string \<Rightarrow> (string \<times> string option) list option \<Rightarrow> string" where
  "invoices_path rfc filters =
     (let query = params_toString (invoice_params filters)
      in ''/api/v1/invoices/'' @ rfc @ (if query \<noteq> [] then ''?'' @ query else []))"

definition getInvoices ::
  "upstream \<Rightarrow> client \<Rightarrow> string \<Rightarrow> (string \<times> string option) list option \<Rightarrow> json io" where
  "getInvoices fetch c rfc filters =
     request fetch c (demoBaseUrl c) (invoices_path rfc filters) None None"

definition getCategories :: "upstream \<Rightarrow> client \<Rightarrow> json io" where
  "getCategories fetch c =
     request fetch c (demoBaseUrl c) ''/api/categorization/categories'' None None"

definition createTaxpayer ::
  "upstream \<Rightarrow> client \<Rightarrow> string \<Rightarrow> string \<Rightarrow> string \<Rightarrow> json io" where
  "createTaxpayer fetch c accountantId rfc ciec =
     request fetch c (appBaseUrl c) (''/api/v1/accountant/'' @ accountantId @ ''/clients'')
       (Some ''POST'') (Some (JObj [(''rfc'', JStr rfc), (''ciec'', JStr ciec)]))"

section \<open>Argument validation\<close>

text \<open>
  The part of zod the program uses: \<open>z.string()\<close>, \<open>z.string().optional()\<close>,
  \<open>z.enum([...])\<close>, and \<open>z.object({...}).parse\<close>. An object schema is the list of its
  keys with their types, in the order of the source. \<open>parse\<close> visits the keys of the schema
  in that order, collects the issues of all of them, throws a ZodError when there is one,
  and otherwise returns an object of the schema's keys only (unknown keys are stripped;
  an optional key that is absent stays absent).
\<close>

datatype zod_type = ZString | ZOptional_string | ZEnum "string list"

fun parsed_type :: "json option \<Rightarrow> string" where
  "parsed_type None = ''undefined''"
| "parsed_type (Some JNull) = ''null''"
| "parsed_type (Some (JBool b)) = ''boolean''"
| "parsed_type (Some (JNum n)) = ''number''"
| "parsed_type (Some (JStr s)) = ''string''"
| "parsed_type (Some (JArr xs)) = ''array''"
| "parsed_type (Some (JObj ps)) = ''object''"

fun zod_string :: "string \<Rightarrow> json option \<Rightarrow> zod_issue list + json option" where
  "zod_string key (Some (JStr s)) = Inr (Some (JStr s))"
| "zod_string key v = Inl [Invalid_type ''string'' (parsed_type v) [key]]"

fun zod_enum :: "string list \<Rightarrow> string \<Rightarrow> json option \<Rightarrow> zod_issue list + json option" where
  "zod_enum opts key (Some (JStr s)) =
     (if s \<in> set opts then Inr (Some (JStr s)) else Inl [Invalid_enum_value s opts [key]])"
| "zod_enum opts key v = Inl [Invalid_enum_type (join_values opts) (parsed_type v) [key]]"

fun zod_parse_value :: "zod_type \<Rightarrow> string \<Rightarrow> json option \<Rightarrow> zod_issue list + json option" where
  "zod_parse_value ZString key v = zod_string key v"
| "zod_parse_value ZOptional_string key v = (if v = None then Inr None else zod_string key v)"
| "zod_parse_value (ZEnum opts) key v = zod_enum opts key v"

type_synonym js_object = "(string \<times> json) list"

fun issues_of :: "zod_issue list + json option \<Rightarrow> zod_issue list" where
  "issues_of (Inl is) = is"
| "issues_of (Inr v) = []"

fun entry_of :: "string \<Rightarrow> zod_issue list + json option \<Rightarrow> js_object" where
  "entry_of key (Inr (Some v)) = [(key, v)]"
| "entry_of key r = []"

definition zod_object_parse :: "(string \<times> zod_type) list \<Rightarrow> js_object option \<Rightarrow> thrown + js_object" where
  "zod_object_parse shape args =
     (case args of
        None \<Rightarrow> Inl (ZodError [Invalid_type ''object'' ''undefined'' []])
      | Some data \<Rightarrow>
          (let results = map (\<lambda>(key, t). (key, zod_parse_value t key (map_of data key))) shape;
               issues = concat (map (\<lambda>(key, r). issues_of r) results)
           in if issues \<noteq> [] then Inl (ZodError issues)
              else Inr (concat (map (\<lambda>(key, r). entry_of key r) results))))"

text \<open>
  The two transport entry points (the HTTP server and the standard-I/O server) each declare
  the catalog, the schemas and the handlers. The schemas and the tool-call handler of the
  two are the same text but for \<open>getInvoicesSchema\<close>, so they are given once, with the
  entry point as a parameter where they differ.
\<close>

datatype transport = Http | Stdio

definition rfcSchema :: "(string \<times> zod_type) list" where
  "rfcSchema = [(''rfc'', ZString)]"

definition accountantIdSchema :: "(string \<times> zod_type) list" where
  "accountantIdSchema = [(''accountantId'', ZString)]"

definition extractCfdiSchema :: "(string \<times> zod_type) list" where
  "extractCfdiSchema =
     [(''rfc'', ZString), (''startDate'', ZString), (''endDate'', ZString),
      (''extractionType'', ZEnum [''all'', ''issued'', ''received''])]"

definition extractCfdiAccountantSchema :: "(string \<times> zod_type) list" where
  "extractCfdiAccountantSchema =
     [(''accountantId'', ZString), (''startDate'', ZString), (''endDate'', ZString)]"

definition taxReportSchema :: "(string \<times> zod_type) list" where
  "taxReportSchema = [(''rfc'', ZString), (''year'', ZString), (''month'', ZString)]"

fun getInvoicesSchema :: "transport \<Rightarrow> (string \<times> zod_type) list" where
  "getInvoicesSchema Http =
     [(''rfc'', ZString),
      (''type'', ZOptional_string),
      (''year'', ZOptional_string),
      (''month'', ZOptional_string),
      (''status'', ZOptional_string),
      (''category'', ZOptional_string),
      (''search'', ZOptional_string),
      (''issuer'', ZOptional_string),
      (''paymentType'', ZOptional_string),
      (''paymentWay'', ZOptional_string)]"
| "getInvoicesSchema Stdio =
     [(''rfc'', ZString),
      (''type'', ZOptional_string),
      (''year'', ZOptional_string),
      (''month'', ZOptional_string),
      (''status'', ZOptional_string),
      (''category'', ZOptional_string),
      (''search'', ZOptional_string)]"

definition createTaxpayerSchema :: "(string \<times> zod_type) list" where
  "createTaxpayerSchema = [(''accountantId'', ZString), (''rfc'', ZString), (''ciec'', ZString)]"

section \<open>The tool-call handler\<close>

text \<open>\<open>input.key\<close> of a parsed input whose schema types the key as a string.\<close>

definition prop_string :: "js_object \<Rightarrow> string \<Rightarrow> string" where
  "prop_string input key = (case map_of input key of Some (JStr s) \<Rightarrow> s | _ \<Rightarrow> [])"

text \<open>\<open>const { rfc, ...filters } = input\<close>: the entries of the other keys, in order.\<close>

definition rest_entries :: "string \<Rightarrow> js_object \<Rightarrow> (string \<times> string option) list" where
  "rest_entries key input =
     map (\<lambda>(k, v). (k, case v of JStr s \<Rightarrow> Some s | _ \<Rightarrow> None))
       (filter (\<lambda>(k, v). k \<noteq> key) input)"

text \<open>A \<open>parse\<close> that throws leaves the \<open>case\<close> before the client is called.\<close>

fun after_parse :: "thrown + js_object \<Rightarrow> (js_object \<Rightarrow> json io) \<Rightarrow> json io" where
  "after_parse (Inl e) f = (Inl e, [])"
| "after_parse (Inr input) f = f input"

text \<open>The \<open>switch\<close> inside the \<open>try\<close>: the result it assigns, or what it throws.\<close>

definition call_tool_switch ::
  "transport \<Rightarrow> upstream \<Rightarrow> client \<Rightarrow> string \<Rightarrow> js_object option \<Rightarrow> json io" where
  "call_tool_switch tr fetch c name args =
     (if name = ''extract_compliance_opinion'' then
        after_parse (zod_object_parse rfcSchema args)
          (\<lambda>input. extractComplianceOpinionByRfc fetch c (prop_string input ''rfc''))
      else if name = ''extract_compliance_opinion_by_accountant'' then
        after_parse (zod_object_parse accountantIdSchema args)
          (\<lambda>input. extractComplianceOpinionByAccountant fetch c (prop_string input ''accountantId''))
      else if name = ''extract_compliance_opinion_all'' then
        extractComplianceOpinionAll fetch c
      else if name = ''get_compliance_opinion'' then
        after_parse (zod_object_parse rfcSchema args)
          (\<lambda>input. getComplianceOpinion fetch c (prop_string input ''rfc''))
      else if name = ''extract_tax_status'' then
        after_parse (zod_object_parse rfcSchema args)
          (\<lambda>input. extractTaxStatusByRfc fetch c (prop_string input ''rfc''))
      else if name = ''extract_tax_status_by_accountant'' then
        after_parse (zod_object_parse accountantIdSchema args)
          (\<lambda>input. extractTaxStatusByAccountant fetch c (prop_string input ''accountantId''))
      else if name = ''extract_tax_status_all'' then
        extractTaxStatusAll fetch c
      else if name = ''get_tax_status'' then
        after_parse (zod_object_parse rfcSchema args)
          (\<lambda>input. getTaxStatus fetch c (prop_string input ''rfc''))
      else if name = ''extract_cfdi'' then
        after_parse (zod_object_parse extractCfdiSchema args)
          (\<lambda>input. extractCfdiByRfc fetch c (prop_string input ''rfc'')
                      (prop_string input ''startDate'') (prop_string input ''endDate'')
                      (prop_string input ''extractionType''))
      else if name = ''extract_cfdi_by_accountant'' then
        after_parse (zod_object_parse extractCfdiAccountantSchema args)
          (\<lambda>input. extractCfdiByAccountant fetch c (prop_string input ''accountantId'')
                      (prop_string input ''startDate'') (prop_string input ''endDate''))
      else if name = ''get_monthly_tax_report'' then
        after_parse (zod_object_parse taxReportSchema args)
          (\<lambda>input. getMonthlyTaxReport fetch c (prop_string input ''rfc'')
                      (prop_string input ''year'') (prop_string input ''month''))
      else if name = ''get_contacts'' then
        after_parse (zod_object_parse rfcSchema args)
          (\<lambda>input. getContacts fetch c (prop_string input ''rfc''))
      else if name = ''get_invoices'' then
        after_parse (zod_object_parse (getInvoicesSchema tr) args)
          (\<lambda>input. getInvoices fetch c (prop_string input ''rfc'')
                      (Some (rest_entries ''rfc'' input)))
      else if name = ''get_categories'' then
        getCategories fetch c
      else if name = ''create_taxpayer'' then
        after_parse (zod_object_parse createTaxpayerSchema args)
          (\<lambda>input. createTaxpayer fetch c (prop_string input ''accountantId'')
                      (prop_string input ''rfc'') (prop_string input ''ciec''))
      else (Inl (Error (''Unknown tool: '' @ name)), []))"

text \<open>
  The result envelope: one text block, and the \<open>isError\<close> property, which the success
  envelope does not have.
\<close>

datatype content_block = Text_content string

record envelope =
  content :: "content_block list"
  isError :: "bool option"

fun statusCode_of :: "thrown \<Rightarrow> nat" where
  "statusCode_of (TaxoMxApiError sc m d) = sc"
| "statusCode_of e = 0"

fun details_of :: "thrown \<Rightarrow> json option" where
  "details_of (TaxoMxApiError sc m d) = d"
| "details_of e = None"

definition error_envelope :: "(string \<times> json option) list \<Rightarrow> envelope" where
  "error_envelope literal =
     \<lparr> content = [Text_content (JSON_stringify_pretty (object_literal literal))],
       isError = Some True \<rparr>"

definition catch_block :: "thrown \<Rightarrow> envelope" where
  "catch_block error =
     (if instanceof_TaxoMxApiError error then
        error_envelope
          [(''error'', Some (JBool True)),
           (''statusCode'', Some (JNum (int (statusCode_of error)))),
           (''message'', Some (JStr (message_of error))),
           (''details'', details_of error)]
      else if instanceof_Error error then
        error_envelope
          [(''error'', Some (JBool True)),
           (''message'', Some (JStr (message_of error)))]
      else
        error_envelope
          [(''error'', Some (JBool True)),
           (''message'', Some (JStr ''An unknown error occurred''))])"

text \<open>
  The handler of a tool call: what it returns to the protocol runtime, or what escapes
  from it, and the requests that went out.
\<close>

definition call_tool ::
  "transport \<Rightarrow> upstream \<Rightarrow> client \<Rightarrow> string \<Rightarrow> js_object option
     \<Rightarrow> (thrown + envelope) \<times> http_request list" where
  "call_tool tr fetch c name args =
     (case call_tool_switch tr fetch c name args of
        (Inr result, sent) \<Rightarrow>
          (Inr \<lparr> content = [Text_content (JSON_stringify_pretty result)], isError = None \<rparr>, sent)
      | (Inl error, sent) \<Rightarrow> (Inr (catch_block error), sent))"

section \<open>The tool catalog\<close>

text \<open>
  A tool descriptor: its name, its description and its input schema (the schema's type, its
  properties in order, each with a type, an optional enumeration and a description, and
  the required parameter names, which a tool without parameters does not have).
\<close>

record property =
  prop_type :: string
  prop_enum :: "string list option"
  prop_description :: string

record input_schema =
  schema_type :: string
  properties :: "(string \<times> property) list"
  required :: "string list option"

record tool =
  name :: string
  description :: string
  inputSchema :: input_schema

text \<open>\<open>TOOLS\<close> of the HTTP server.\<close>

definition TOOLS_http :: "tool list" where
  "TOOLS_http =
    [\<lparr> name = ''extract_compliance_opinion'',
       description =
         (''Requests extraction of SAT compliance opinion (Opini'' @ [CHR 0xC3, CHR 0xB3] @ ''n de Cumplimiento) for a taxpayer by RFC. This is an async operation.''),
       inputSchema =
         \<lparr> schema_type = ''object'',
           properties =
           [(''rfc'', \<lparr> prop_type = ''string'', prop_enum = None,
              prop_description = ''Taxpayer RFC (Registro Federal de Contribuyentes)'' \<rparr>)],
           required = Some [''rfc''] \<rparr> \<rparr>,
     \<lparr> name = ''extract_compliance_opinion_by_accountant'',
       description =
         ''Requests extraction of compliance opinions for all taxpayers of an accountant. This is an async operation.'',
       inputSchema =
         \<lparr> schema_type = ''object'',
           properties =
           [(''accountantId'', \<lparr> prop_type = ''string'', prop_enum = None,
              prop_description = ''Internal accountant ID'' \<rparr>)],
           required = Some [''accountantId''] \<rparr> \<rparr>,
     \<lparr> name = ''extract_compliance_opinion_all'',
       description =
         ''Requests extraction of compliance opinions for all valid taxpayers in the platform. This is an async operation.'',
       inputSchema =
         \<lparr> schema_type = ''object'',
           properties =
           [],
           required = None \<rparr> \<rparr>,
     \<lparr> name = ''get_compliance_opinion'',
       description =
         (''Retrieves the SAT compliance opinion (Opini'' @ [CHR 0xC3, CHR 0xB3] @ ''n de Cumplimiento) for a taxpayer. Returns the latest extracted opinion.''),
       inputSchema =
         \<lparr> schema_type = ''object'',
           properties =
           [(''rfc'', \<lparr> prop_type = ''string'', prop_enum = None,
              prop_description = ''Taxpayer RFC'' \<rparr>)],
           required = Some [''rfc''] \<rparr> \<rparr>,
     \<lparr> name = ''extract_tax_status'',
       description =
         (''Requests extraction of tax status certificate (Constancia de Situaci'' @ [CHR 0xC3, CHR 0xB3] @ ''n Fiscal) for a taxpayer by RFC. This is an async operation.''),
       inputSchema =
         \<lparr> schema_type = ''object'',
           properties =
           [(''rfc'', \<lparr> prop_type = ''string'', prop_enum = None,
              prop_description = ''Taxpayer RFC'' \<rparr>)],
           required = Some [''rfc''] \<rparr> \<rparr>,
     \<lparr> name = ''extract_tax_status_by_accountant'',
       description =
         ''Requests extraction of tax status certificates for all taxpayers of an accountant. This is an async operation.'',
       inputSchema =
         \<lparr> schema_type = ''object'',
           properties =
           [(''accountantId'', \<lparr> prop_type = ''string'', prop_enum = None,
              prop_description = ''Internal accountant ID'' \<rparr>)],
           required = Some [''accountantId''] \<rparr> \<rparr>,
     \<lparr> name = ''extract_tax_status_all'',
       description =
         ''Requests extraction of tax status certificates for all valid taxpayers. This is an async operation.'',
       inputSchema =
         \<lparr> schema_type = ''object'',
           properties =
           [],
           required = None \<rparr> \<rparr>,
     \<lparr> name = ''get_tax_status'',
       description =
         (''Retrieves the tax status certificate (Constancia de Situaci'' @ [CHR 0xC3, CHR 0xB3] @ ''n Fiscal) for a taxpayer. Returns the latest extracted certificate.''),
       inputSchema =
         \<lparr> schema_type = ''object'',
           properties =
           [(''rfc'', \<lparr> prop_type = ''string'', prop_enum = None,
              prop_description = ''Taxpayer RFC'' \<rparr>)],
           required = Some [''rfc''] \<rparr> \<rparr>,
     \<lparr> name = ''extract_cfdi'',
       description =
         ''Requests extraction of CFDI (electronic invoices) for a taxpayer. Can extract issued, received, or all invoices within a date range. This is an async operation.'',
       inputSchema =
         \<lparr> schema_type = ''object'',
           properties =
           [(''rfc'', \<lparr> prop_type = ''string'', prop_enum = None,
              prop_description = ''Taxpayer RFC'' \<rparr>),
            (''startDate'', \<lparr> prop_type = ''string'', prop_enum = None,
              prop_description = ''Start date in YYYY-MM-DD format'' \<rparr>),
            (''endDate'', \<lparr> prop_type = ''string'', prop_enum = None,
              prop_description = ''End date in YYYY-MM-DD format'' \<rparr>),
            (''extractionType'', \<lparr> prop_type = ''string'', prop_enum = Some [''all'', ''issued'', ''received''],
              prop_description = ''Type of invoices to extract: all, issued (emitidos), or received (recibidos)'' \<rparr>)],
           required = Some [''rfc'', ''startDate'', ''endDate'', ''extractionType''] \<rparr> \<rparr>,
     \<lparr> name = ''extract_cfdi_by_accountant'',
       description =
         ''Requests extraction of CFDI for all clients of an accountant within a date range. This is an async operation.'',
       inputSchema =
         \<lparr> schema_type = ''object'',
           properties =
           [(''accountantId'', \<lparr> prop_type = ''string'', prop_enum = None,
              prop_description = ''Internal accountant ID'' \<rparr>),
            (''startDate'', \<lparr> prop_type = ''string'', prop_enum = None,
              prop_description = ''Start date in YYYY-MM-DD format'' \<rparr>),
            (''endDate'', \<lparr> prop_type = ''string'', prop_enum = None,
              prop_description = ''End date in YYYY-MM-DD format'' \<rparr>)],
           required = Some [''accountantId'', ''startDate'', ''endDate''] \<rparr> \<rparr>,
     \<lparr> name = ''get_monthly_tax_report'',
       description =
         ''Retrieves the monthly tax report for a taxpayer. Includes ISR, IVA, and other tax calculations.'',
       inputSchema =
         \<lparr> schema_type = ''object'',
           properties =
           [(''rfc'', \<lparr> prop_type = ''string'', prop_enum = None,
              prop_description = ''Taxpayer RFC'' \<rparr>),
            (''year'', \<lparr> prop_type = ''string'', prop_enum = None,
              prop_description = ''Year (e.g., \"2025\")'' \<rparr>),
            (''month'', \<lparr> prop_type = ''string'', prop_enum = None,
              prop_description = ''Month in MM format (e.g., \"04\" for April)'' \<rparr>)],
           required = Some [''rfc'', ''year'', ''month''] \<rparr> \<rparr>,
     \<lparr> name = ''get_contacts'',
       description =
         ''Retrieves the contacts associated with a taxpayer.'',
       inputSchema =
         \<lparr> schema_type = ''object'',
           properties =
           [(''rfc'', \<lparr> prop_type = ''string'', prop_enum = None,
              prop_description = ''Taxpayer RFC'' \<rparr>)],
           required = Some [''rfc''] \<rparr> \<rparr>,
     \<lparr> name = ''get_invoices'',
       description =
         ''Retrieves invoices/documents for a taxpayer with optional filters. Supports filtering by type, date, status, category, and more.'',
       inputSchema =
         \<lparr> schema_type = ''object'',
           properties =
           [(''rfc'', \<lparr> prop_type = ''string'', prop_enum = None,
              prop_description = ''Taxpayer RFC'' \<rparr>),
            (''type'', \<lparr> prop_type = ''string'', prop_enum = None,
              prop_description = ''Invoice type filter'' \<rparr>),
            (''year'', \<lparr> prop_type = ''string'', prop_enum = None,
              prop_description = ''Filter by year'' \<rparr>),
            (''month'', \<lparr> prop_type = ''string'', prop_enum = None,
              prop_description = ''Filter by month'' \<rparr>),
            (''status'', \<lparr> prop_type = ''string'', prop_enum = None,
              prop_description = ''Invoice status filter'' \<rparr>),
            (''category'', \<lparr> prop_type = ''string'', prop_enum = None,
              prop_description = ''Category filter'' \<rparr>),
            (''search'', \<lparr> prop_type = ''string'', prop_enum = None,
              prop_description = ''Search term'' \<rparr>),
            (''issuer'', \<lparr> prop_type = ''string'', prop_enum = None,
              prop_description = ''Filter by issuer'' \<rparr>),
            (''paymentType'', \<lparr> prop_type = ''string'', prop_enum = None,
              prop_description = ''Payment type filter'' \<rparr>),
            (''paymentWay'', \<lparr> prop_type = ''string'', prop_enum = None,
              prop_description = ''Payment method filter'' \<rparr>)],
           required = Some [''rfc''] \<rparr> \<rparr>,
     \<lparr> name = ''get_categories'',
       description =
         ''Retrieves all categories defined in Taxo for invoice classification.'',
       inputSchema =
         \<lparr> schema_type = ''object'',
           properties =
           [],
           required = None \<rparr> \<rparr>,
     \<lparr> name = ''create_taxpayer'',
       description =
         ''Creates a new taxpayer under an accountant. Requires the RFC and CIEC (SAT password) to enable document extraction.'',
       inputSchema =
         \<lparr> schema_type = ''object'',
           properties =
           [(''accountantId'', \<lparr> prop_type = ''string'', prop_enum = None,
              prop_description = ''Internal accountant ID'' \<rparr>),
            (''rfc'', \<lparr> prop_type = ''string'', prop_enum = None,
              prop_description = ''Taxpayer RFC'' \<rparr>),
            (''ciec'', \<lparr> prop_type = ''string'', prop_enum = None,
              prop_description = ''CIEC password for SAT access'' \<rparr>)],
           required = Some [''accountantId'', ''rfc'', ''ciec''] \<rparr> \<rparr>]"

text \<open>\<open>TOOLS\<close> of the standard-I/O server.\<close>

definition TOOLS_stdio :: "tool list" where
  "TOOLS_stdio =
    [\<lparr> name = ''extract_compliance_opinion'',
       description =
         (''Requests extraction of SAT compliance opinion (Opini'' @ [CHR 0xC3, CHR 0xB3] @ ''n de Cumplimiento) for a taxpayer by RFC. This is an async operation.''),
       inputSchema =
         \<lparr> schema_type = ''object'',
           properties =
           [(''rfc'', \<lparr> prop_type = ''string'', prop_enum = None,
              prop_description = ''Taxpayer RFC (Registro Federal de Contribuyentes)'' \<rparr>)],
           required = Some [''rfc''] \<rparr> \<rparr>,
     \<lparr> name = ''extract_compliance_opinion_by_accountant'',
       description =
         ''Requests extraction of compliance opinions for all taxpayers of an accountant. This is an async operation.'',
       inputSchema =
         \<lparr> schema_type = ''object'',
           properties =
           [(''accountantId'', \<lparr> prop_type = ''string'', prop_enum = None,
              prop_description = ''Internal accountant ID'' \<rparr>)],
           required = Some [''accountantId''] \<rparr> \<rparr>,
     \<lparr> name = ''extract_compliance_opinion_all'',
       description =
         ''Requests extraction of compliance opinions for all valid taxpayers in the platform. This is an async operation.'',
       inputSchema =
         \<lparr> schema_type = ''object'',
           properties =
           [],
           required = None \<rparr> \<rparr>,
     \<lparr> name = ''get_compliance_opinion'',
       description =
         (''Retrieves the SAT compliance opinion (Opini'' @ [CHR 0xC3, CHR 0xB3] @ ''n de Cumplimiento) for a taxpayer. Returns the latest extracted opinion.''),
       inputSchema =
         \<lparr> schema_type = ''object'',
           properties =
           [(''rfc'', \<lparr> prop_type = ''string'', prop_enum = None,
              prop_description = ''Taxpayer RFC'' \<rparr>)],
           required = Some [''rfc''] \<rparr> \<rparr>,
     \<lparr> name = ''extract_tax_status'',
       description =
         (''Requests extraction of tax status certificate (Constancia de Situaci'' @ [CHR 0xC3, CHR 0xB3] @ ''n Fiscal) for a taxpayer by RFC. This is an async operation.''),
       inputSchema =
         \<lparr> schema_type = ''object'',
           properties =
           [(''rfc'', \<lparr> prop_type = ''string'', prop_enum = None,
              prop_description = ''Taxpayer RFC'' \<rparr>)],
           required = Some [''rfc''] \<rparr> \<rparr>,
     \<lparr> name = ''extract_tax_status_by_accountant'',
       description =
         ''Requests extraction of tax status certificates for all taxpayers of an accountant. This is an async operation.'',
       inputSchema =
         \<lparr> schema_type = ''object'',
           properties =
           [(''accountantId'', \<lparr> prop_type = ''string'', prop_enum = None,
              prop_description = ''Internal accountant ID'' \<rparr>)],
           required = Some [''accountantId''] \<rparr> \<rparr>,
     \<lparr> name = ''extract_tax_status_all'',
       description =
         ''Requests extraction of tax status certificates for all valid taxpayers. This is an async operation.'',
       inputSchema =
         \<lparr> schema_type = ''object'',
           properties =
           [],
           required = None \<rparr> \<rparr>,
     \<lparr> name = ''get_tax_status'',
       description =
         (''Retrieves the tax status certificate (Constancia de Situaci'' @ [CHR 0xC3, CHR 0xB3] @ ''n Fiscal) for a taxpayer. Returns the latest extracted certificate.''),
       inputSchema =
         \<lparr> schema_type = ''object'',
           properties =
           [(''rfc'', \<lparr> prop_type = ''string'', prop_enum = None,
              prop_description = ''Taxpayer RFC'' \<rparr>)],
           required = Some [''rfc''] \<rparr> \<rparr>,
     \<lparr> name = ''extract_cfdi'',
       description =
         ''Requests extraction of CFDI (electronic invoices) for a taxpayer. Can extract issued, received, or all invoices within a date range. This is an async operation.'',
       inputSchema =
         \<lparr> schema_type = ''object'',
           properties =
           [(''rfc'', \<lparr> prop_type = ''string'', prop_enum = None,
              prop_description = ''Taxpayer RFC'' \<rparr>),
            (''startDate'', \<lparr> prop_type = ''string'', prop_enum = None,
              prop_description = ''Start date in YYYY-MM-DD format'' \<rparr>),
            (''endDate'', \<lparr> prop_type = ''string'', prop_enum = None,
              prop_description = ''End date in YYYY-MM-DD format'' \<rparr>),
            (''extractionType'', \<lparr> prop_type = ''string'', prop_enum = Some [''all'', ''issued'', ''received''],
              prop_description = ''Type of invoices to extract: all, issued (emitidos), or received (recibidos)'' \<rparr>)],
           required = Some [''rfc'', ''startDate'', ''endDate'', ''extractionType''] \<rparr> \<rparr>,
     \<lparr> name = ''extract_cfdi_by_accountant'',
       description =
         ''Requests extraction of CFDI for all clients of an accountant within a date range. This is an async operation.'',
       inputSchema =
         \<lparr> schema_type = ''object'',
           properties =
           [(''accountantId'', \<lparr> prop_type = ''string'', prop_enum = None,
              prop_description = ''Internal accountant ID'' \<rparr>),
            (''startDate'', \<lparr> prop_type = ''string'', prop_enum = None,
              prop_description = ''Start date in YYYY-MM-DD format'' \<rparr>),
            (''endDate'', \<lparr> prop_type = ''string'', prop_enum = None,
              prop_description = ''End date in YYYY-MM-DD format'' \<rparr>)],
           required = Some [''accountantId'', ''startDate'', ''endDate''] \<rparr> \<rparr>,
     \<lparr> name = ''get_monthly_tax_report'',
       description =
         ''Retrieves the monthly tax report for a taxpayer. Includes ISR, IVA, and other tax calculations.'',
       inputSchema =
         \<lparr> schema_type = ''object'',
           properties =
           [(''rfc'', \<lparr> prop_type = ''string'', prop_enum = None,
              prop_description = ''Taxpayer RFC'' \<rparr>),
            (''year'', \<lparr> prop_type = ''string'', prop_enum = None,
              prop_description = ''Year (e.g., \"2025\")'' \<rparr>),
            (''month'', \<lparr> prop_type = ''string'', prop_enum = None,
              prop_description = ''Month in MM format (e.g., \"04\" for April)'' \<rparr>)],
           required = Some [''rfc'', ''year'', ''month''] \<rparr> \<rparr>,
     \<lparr> name = ''get_contacts'',
       description =
         ''Retrieves the contacts associated with a taxpayer.'',
       inputSchema =
         \<lparr> schema_type = ''object'',
           properties =
           [(''rfc'', \<lparr> prop_type = ''string'', prop_enum = None,
              prop_description = ''Taxpayer RFC'' \<rparr>)],
           required = Some [''rfc''] \<rparr> \<rparr>,
     \<lparr> name = ''get_invoices'',
       description =
         ''Retrieves invoices/documents for a taxpayer with optional filters. Supports filtering by type, date, status, category, and more.'',
       inputSchema =
         \<lparr> schema_type = ''object'',
           properties =
           [(''rfc'', \<lparr> prop_type = ''string'', prop_enum = None,
              prop_description = ''Taxpayer RFC'' \<rparr>),
            (''type'', \<lparr> prop_type = ''string'', prop_enum = None,
              prop_description = ''Invoice type filter'' \<rparr>),
            (''year'', \<lparr> prop_type = ''string'', prop_enum = None,
              prop_description = ''Filter by year'' \<rparr>),
            (''month'', \<lparr> prop_type = ''string'', prop_enum = None,
              prop_description = ''Filter by month'' \<rparr>),
            (''status'', \<lparr> prop_type = ''string'', prop_enum = None,
              prop_description = ''Invoice status filter'' \<rparr>),
            (''category'', \<lparr> prop_type = ''string'', prop_enum = None,
              prop_description = ''Category filter'' \<rparr>),
            (''search'', \<lparr> prop_type = ''string'', prop_enum = None,
              prop_description = ''Search term'' \<rparr>)],
           required = Some [''rfc''] \<rparr> \<rparr>,
     \<lparr> name = ''get_categories'',
       description =
         ''Retrieves all categories defined in Taxo for invoice classification.'',
       inputSchema =
         \<lparr> schema_type = ''object'',
           properties =
           [],
           required = None \<rparr> \<rparr>,
     \<lparr> name = ''create_taxpayer'',
       description =
         ''Creates a new taxpayer under an accountant. Requires the RFC and CIEC (SAT password) to enable document extraction.'',
       inputSchema =
         \<lparr> schema_type = ''object'',
           properties =
           [(''accountantId'', \<lparr> prop_type = ''string'', prop_enum = None,
              prop_description = ''Internal accountant ID'' \<rparr>),
            (''rfc'', \<lparr> prop_type = ''string'', prop_enum = None,
              prop_description = ''Taxpayer RFC'' \<rparr>),
            (''ciec'', \<lparr> prop_type = ''string'', prop_enum = None,
              prop_description = ''CIEC password for SAT access'' \<rparr>)],
           required = Some [''accountantId'', ''rfc'', ''ciec''] \<rparr> \<rparr>]"

fun TOOLS :: "transport \<Rightarrow> tool list" where
  "TOOLS Http = TOOLS_http"
| "TOOLS Stdio = TOOLS_stdio"

text \<open>The handler of a catalog listing.\<close>

record list_tools_result =
  tools :: "tool list"

definition list_tools :: "transport \<Rightarrow> list_tools_result" where
  "list_tools tr = \<lparr> tools = TOOLS tr \<rparr>"

section \<open>The HTTP transport\<close>

text \<open>
  An incoming request, as far as the server looks at it: the method, the route that its
  path matches (with the \<open>:token\<close> segment of \<open>/mcp/:token\<close>), and the
  \<open>authorization\<close> header. What the server does with it: it sends a status with a body,
  or it hands the request to a fresh protocol server over a fresh client, or no route
  answers.
\<close>

datatype route = Health | Mcp_token string | Mcp | Other_path

datatype reply_body = Json_reply json | Text_reply string

datatype http_outcome =
    Respond nat reply_body
  | Mcp_exchange client
  | Unrouted

definition starts_with :: "string \<Rightarrow> string \<Rightarrow> bool" where
  "starts_with prefix s = (take (length prefix) s = prefix)"

fun truthy_string :: "string option \<Rightarrow> bool" where
  "truthy_string None = False"
| "truthy_string (Some s) = (s \<noteq> [])"

definition resolve_token :: "string option \<Rightarrow> string option \<Rightarrow> string option" where
  "resolve_token pathToken authHeader =
     (if \<not> truthy_string pathToken then
        (case authHeader of
           Some h \<Rightarrow> if starts_with ''Bearer '' h then Some (drop 7 h) else pathToken
         | None \<Rightarrow> pathToken)
      else pathToken)"

definition handleMcpRequest :: "string \<Rightarrow> string option \<Rightarrow> string option \<Rightarrow> http_outcome" where
  "handleMcpRequest meth authHeader pathToken =
     (if meth \<noteq> ''POST'' then
        Respond 405 (Json_reply
          (JObj [(''error'', JStr ''Method not allowed. Use POST for MCP requests.'')]))
      else
        (case resolve_token pathToken authHeader of
           Some t \<Rightarrow>
             if t \<noteq> [] then
               Mcp_exchange
                 (new_client \<lparr> opt_token = t, opt_appBaseUrl = None, opt_demoBaseUrl = None \<rparr>)
             else
               Respond 401 (Json_reply
                 (JObj [(''error'', JStr ''Authentication required''),
                        (''hint'', JStr ''Provide token in URL path (/mcp/YOUR_TOKEN) or Authorization: Bearer header'')]))
         | None \<Rightarrow>
             Respond 401 (Json_reply
               (JObj [(''error'', JStr ''Authentication required''),
                      (''hint'', JStr ''Provide token in URL path (/mcp/YOUR_TOKEN) or Authorization: Bearer header'')]))))"

definition cors_headers :: "(string \<times> string) list" where
  "cors_headers =
     [(''Access-Control-Allow-Origin'', ''*''),
      (''Access-Control-Allow-Methods'', ''GET, POST, OPTIONS''),
      (''Access-Control-Allow-Headers'', ''Content-Type, Authorization, Accept'')]"

text \<open>
  The application: the CORS middleware runs first and answers every OPTIONS request itself;
  the routes follow in the order of their registration.
\<close>

definition app :: "string \<Rightarrow> route \<Rightarrow> string option \<Rightarrow> (string \<times> string) list \<times> http_outcome" where
  "app meth target authHeader =
     (cors_headers,
      if meth = ''OPTIONS'' then Respond 200 (Text_reply ''OK'')
      else
        (case target of
           Health \<Rightarrow>
             if meth = ''GET'' \<or> meth = ''HEAD'' then
               Respond 200 (Json_reply
                 (JObj [(''status'', JStr ''ok''), (''server'', JStr ''taxo-mx-mcp''),
                        (''version'', JStr ''1.0.0'')]))
             else Unrouted
         | Mcp_token t \<Rightarrow> handleMcpRequest meth authHeader (Some t)
         | Mcp \<Rightarrow> handleMcpRequest meth authHeader None
         | Other_path \<Rightarrow> Unrouted))"

section \<open>The standard-I/O transport\<close>

text \<open>\<open>args.indexOf(x)\<close>, with \<open>None\<close> for \<open>-1\<close>, and \<open>args[i]\<close>, with \<open>None\<close> for
  \<open>undefined\<close>.\<close>

fun indexOf :: "string list \<Rightarrow> string \<Rightarrow> nat option" where
  "indexOf [] x = None"
| "indexOf (a # as) x = (if a = x then Some 0 else map_option Suc (indexOf as x))"

definition element_at :: "string list \<Rightarrow> nat \<Rightarrow> string option" where
  "element_at xs i = (if i < length xs then Some (xs ! i) else None)"

text \<open>
  \<open>getToken\<close> returns the token, or ends the process with an exit code; with it come the
  lines written to the error stream.
\<close>

definition getToken :: "string list \<Rightarrow> (string \<Rightarrow> string option) \<Rightarrow> (nat + string) \<times> string list" where
  "getToken argv env =
     (let args = drop 2 argv;
          tokenIndex = indexOf args ''--token''
      in
      if tokenIndex \<noteq> None \<and> truthy_string (element_at args (the tokenIndex + 1)) then
        (Inr (the (element_at args (the tokenIndex + 1))), [])
      else if truthy_string (env ''TAXO_MX_TOKEN'') then
        (Inr (the (env ''TAXO_MX_TOKEN'')), [])
      else
        (Inl 1,
         [''Error: Taxo MX token required'',
          ''Provide via --token argument or TAXO_MX_TOKEN environment variable'']))"

text \<open>
  \<open>main\<close> of the standard-I/O server: the process has exited with a code, or it serves
  requests with the one client made from the token.
\<close>

datatype stdio_process = Exited nat | Serving client

definition stdio_main :: "string list \<Rightarrow> (string \<Rightarrow> string option) \<Rightarrow> stdio_process \<times> string list" where
  "stdio_main argv env =
     (case getToken argv env of
        (Inl code, err) \<Rightarrow> (Exited code, err)
      | (Inr t, err) \<Rightarrow>
          (Serving (new_client \<lparr> opt_token = t, opt_appBaseUrl = None, opt_demoBaseUrl = None \<rparr>),
           err))"

section \<open>The vocabulary of the specification\<close>

text \<open>
  The definitions of this section are not taken from the source: they say, in the terms of
  the model, what the specification's sentences talk about.
\<close>

subsection \<open>Requests and envelopes\<close>

text \<open>
  The request that \<open>request\<close> builds from its arguments, and the error envelope around
  a payload: one text block with the pretty-printed payload, and the error flag set.
\<close>

definition the_request :: "client \<Rightarrow> string \<Rightarrow> string \<Rightarrow> string option \<Rightarrow> json option \<Rightarrow> http_request" where
  "the_request c b p m bd =
     \<lparr> url = b @ p, http_method = (case m of None \<Rightarrow> ''GET'' | Some x \<Rightarrow> x),
        headers = request_headers c,
        body = (case bd of None \<Rightarrow> None
                | Some j \<Rightarrow> if truthy j then Some (JSON_stringify j) else None) \<rparr>"

definition error_result :: "json \<Rightarrow> envelope" where
  "error_result j = \<lparr> content = [Text_content (JSON_stringify_pretty j)], isError = Some True \<rparr>"

text \<open>
  The payload shape \<open>{error: true, message, statusCode?, details?}\<close>: an object with
  \<open>error\<close> and \<open>message\<close>, and with \<open>statusCode\<close> and \<open>details\<close> where they
  are given.
\<close>

definition error_shape :: "string \<Rightarrow> nat option \<Rightarrow> json option \<Rightarrow> json" where
  "error_shape msg sc d =
     object_literal [(''error'', Some (JBool True)),
                     (''statusCode'', map_option (\<lambda>n. JNum (int n)) sc),
                     (''message'', Some (JStr msg)),
                     (''details'', d)]"

text \<open>
  What the \<open>switch\<close> of the handler can come to: a validation error and no request, the
  error of an unknown tool and no request, or whatever one call of \<open>request\<close> comes to.
\<close>

definition switch_outcome :: "upstream \<Rightarrow> client \<Rightarrow> string \<Rightarrow> json io \<Rightarrow> bool" where
  "switch_outcome fetch c nm x =
     ((\<exists>issues. x = (Inl (ZodError issues), []) \<and> issues \<noteq> [])
      \<or> x = (Inl (Error (''Unknown tool: '' @ nm)), [])
      \<or> (\<exists>b p m bd. x = request fetch c b p m bd))"

subsection \<open>The operation table\<close>

text \<open>
  The table of operations of the specification: for each operation the host (A, the
  primary one, or B, the secondary one), the method, the path with its parameters, and the
  keys of the body, as the upstream names them. The row of \<open>get_invoices\<close> gives the path
  without its query, which is what a call without filters asks for.
\<close>

datatype host = Primary | Secondary

datatype segment = Lit string | Param string

record spec_row =
  op_name :: string
  op_host :: host
  op_method :: string
  op_path :: "segment list"
  op_body :: "string list option"

definition spec_table :: "spec_row list" where
  "spec_table =
    [\<lparr> op_name = ''extract_compliance_opinion'', op_host = Primary, op_method = ''POST'',
        op_path = [Lit ''/api/extractions/oc/client''], op_body = Some [''rfc''] \<rparr>,
     \<lparr> op_name = ''extract_compliance_opinion_by_accountant'', op_host = Primary, op_method = ''POST'',
        op_path = [Lit ''/api/extractions/oc/accountant''], op_body = Some [''accountant_id''] \<rparr>,
     \<lparr> op_name = ''extract_compliance_opinion_all'', op_host = Primary, op_method = ''POST'',
        op_path = [Lit ''/api/extractions/oc/extract-all''], op_body = None \<rparr>,
     \<lparr> op_name = ''get_compliance_opinion'', op_host = Primary, op_method = ''GET'',
        op_path = [Lit ''/api/extractions/oc/client/'', Param ''rfc''], op_body = None \<rparr>,
     \<lparr> op_name = ''extract_tax_status'', op_host = Primary, op_method = ''POST'',
        op_path = [Lit ''/api/extractions/csf/client''], op_body = Some [''rfc''] \<rparr>,
     \<lparr> op_name = ''extract_tax_status_by_accountant'', op_host = Primary, op_method = ''POST'',
        op_path = [Lit ''/api/extractions/csf/accountant''], op_body = Some [''accountant_id''] \<rparr>,
     \<lparr> op_name = ''extract_tax_status_all'', op_host = Primary, op_method = ''POST'',
        op_path = [Lit ''/api/extractions/csf/extract-all''], op_body = None \<rparr>,
     \<lparr> op_name = ''get_tax_status'', op_host = Primary, op_method = ''GET'',
        op_path = [Lit ''/api/extractions/csf/client/'', Param ''rfc''], op_body = None \<rparr>,
     \<lparr> op_name = ''extract_cfdi'', op_host = Primary, op_method = ''POST'',
        op_path = [Lit ''/api/extractions/cfdi/client''],
        op_body = Some [''rfc'', ''start_date'', ''end_date'', ''extraction_type''] \<rparr>,
     \<lparr> op_name = ''extract_cfdi_by_accountant'', op_host = Primary, op_method = ''POST'',
        op_path = [Lit ''/api/extractions/cfdi/accountant''],
        op_body = Some [''accountant_id'', ''start_date'', ''end_date''] \<rparr>,
     \<lparr> op_name = ''get_monthly_tax_report'', op_host = Secondary, op_method = ''GET'',
        op_path = [Lit ''/api/v1/tax-reports/monthly/'', Param ''rfc'', Lit ''/'', Param ''year'',
                   Lit ''/'', Param ''month''],
        op_body = None \<rparr>,
     \<lparr> op_name = ''get_contacts'', op_host = Secondary, op_method = ''GET'',
        op_path = [Lit ''/api/v1/contacts/'', Param ''rfc''], op_body = None \<rparr>,
     \<lparr> op_name = ''get_invoices'', op_host = Secondary, op_method = ''GET'',
        op_path = [Lit ''/api/v1/invoices/'', Param ''rfc''], op_body = None \<rparr>,
     \<lparr> op_name = ''get_categories'', op_host = Secondary, op_method = ''GET'',
        op_path = [Lit ''/api/categorization/categories''], op_body = None \<rparr>,
     \<lparr> op_name = ''create_taxpayer'', op_host = Primary, op_method = ''POST'',
        op_path = [Lit ''/api/v1/accountant/'', Param ''accountantId'', Lit ''/clients''],
        op_body = Some [''rfc'', ''ciec''] \<rparr>]"

text \<open>
  The renaming of an argument key to the upstream's convention: an upper-case letter
  becomes an underscore and the lower-case letter.
\<close>

definition lower_of :: "char \<Rightarrow> char option" where
  "lower_of ch = map_of (zip ''ABCDEFGHIJKLMNOPQRSTUVWXYZ'' ''abcdefghijklmnopqrstuvwxyz'') ch"

definition snake_case :: "string \<Rightarrow> string" where
  "snake_case s =
     concat (map (\<lambda>ch. case lower_of ch of Some l \<Rightarrow> [CHR ''_'', l] | None \<Rightarrow> [ch]) s)"

text \<open>
  A minimal valid argument set of a tool gives each required parameter of its descriptor a
  string \<open>v a\<close>, which is one of the enumerated values where the descriptor enumerates
  them.
\<close>

definition required_parameters :: "tool \<Rightarrow> string list" where
  "required_parameters t = (case required (inputSchema t) of None \<Rightarrow> [] | Some ks \<Rightarrow> ks)"

definition enum_constraints :: "tool \<Rightarrow> (string \<times> string list) list" where
  "enum_constraints t =
     concat (map (\<lambda>(a, p). case prop_enum p of None \<Rightarrow> [] | Some opts \<Rightarrow> [(a, opts)])
               (properties (inputSchema t)))"

definition minimal_arguments :: "tool \<Rightarrow> (string \<Rightarrow> string) \<Rightarrow> js_object" where
  "minimal_arguments t v = map (\<lambda>a. (a, JStr (v a))) (required_parameters t)"

definition allowed_values :: "tool \<Rightarrow> (string \<Rightarrow> string) \<Rightarrow> bool" where
  "allowed_values t v = list_all (\<lambda>(a, opts). v a \<in> set opts) (enum_constraints t)"

text \<open>
  The request that a row of the table documents: the host's base URL followed by the path,
  with each parameter replaced by its argument; the method; and the body, in which each key
  carries the argument whose renaming it is.
\<close>

definition host_url :: "client \<Rightarrow> host \<Rightarrow> string" where
  "host_url c h = (case h of Primary \<Rightarrow> appBaseUrl c | Secondary \<Rightarrow> demoBaseUrl c)"

definition render_path :: "(string \<Rightarrow> string) \<Rightarrow> segment list \<Rightarrow> string" where
  "render_path v segs = concat (map (\<lambda>seg. case seg of Lit s \<Rightarrow> s | Param a \<Rightarrow> v a) segs)"

definition argument_for :: "string list \<Rightarrow> string \<Rightarrow> string" where
  "argument_for params key = (case find (\<lambda>a. snake_case a = key) params of Some a \<Rightarrow> a | None \<Rightarrow> key)"

definition documented_request ::
  "client \<Rightarrow> spec_row \<Rightarrow> string list \<Rightarrow> (string \<Rightarrow> string) \<Rightarrow> http_request" where
  "documented_request c row params v =
     \<lparr> url = host_url c (op_host row) @ render_path v (op_path row),
       http_method = op_method row,
       headers = request_headers c,
       body = map_option
                (\<lambda>keys. JSON_stringify (JObj (map (\<lambda>k. (k, JStr (v (argument_for params k)))) keys)))
                (op_body row) \<rparr>"

text \<open>
  What the catalog says of a tool that a call depends on: its name, its required parameters
  and its enumerations. And what it is for an operation to conform to the table: a call
  with the parameters \<open>params\<close>, each given the string \<open>v a\<close>, sends exactly the
  request that the operation's row documents.
\<close>

definition signature :: "tool \<Rightarrow> string \<times> string list \<times> (string \<times> string list) list" where
  "signature t = (name t, required_parameters t, enum_constraints t)"

definition conforms ::
  "transport \<Rightarrow> upstream \<Rightarrow> client \<Rightarrow> (string \<Rightarrow> string) \<Rightarrow> string \<Rightarrow> string list \<Rightarrow> bool" where
  "conforms tr fetch c v nm params =
     (\<exists>row. find (\<lambda>row. op_name row = nm) spec_table = Some row \<and>
            snd (call_tool tr fetch c nm (Some (map (\<lambda>a. (a, JStr (v a))) params))) =
              [documented_request c row params v])"

subsection \<open>The filters of an invoice query\<close>

text \<open>
  The optional filter fields that each entry point accepts; the pairs that a well-typed
  argument object supplies for them, a pair for each filter whose value is a non-empty
  string; and what well-typed means: each filter is absent or a string.
\<close>

fun filter_keys :: "transport \<Rightarrow> string list" where
  "filter_keys Http = [''type'', ''year'', ''month'', ''status'', ''category'', ''search'',
                       ''issuer'', ''paymentType'', ''paymentWay'']"
| "filter_keys Stdio = [''type'', ''year'', ''month'', ''status'', ''category'', ''search'']"

definition supplied :: "js_object \<Rightarrow> string \<Rightarrow> (string \<times> string) list" where
  "supplied args k =
     (case map_of args k of Some (JStr s) \<Rightarrow> if s \<noteq> [] then [(k, s)] else [] | _ \<Rightarrow> [])"

definition query_params :: "transport \<Rightarrow> js_object \<Rightarrow> (string \<times> string) list" where
  "query_params tr args = concat (map (supplied args) (filter_keys tr))"

definition well_typed_filters :: "transport \<Rightarrow> js_object \<Rightarrow> bool" where
  "well_typed_filters tr args =
     list_all (\<lambda>k. case map_of args k of None \<Rightarrow> True | Some (JStr s) \<Rightarrow> True | _ \<Rightarrow> False)
       (filter_keys tr)"

subsection \<open>Token resolution\<close>

text \<open>
  The client that an entry point builds from a token; the path token of a route and the
  token of an \<open>Authorization: Bearer\<close> header, each only when it is not empty; and the
  answer to a request without a token.
\<close>

definition fresh_client :: "string \<Rightarrow> client" where
  "fresh_client t = new_client \<lparr> opt_token = t, opt_appBaseUrl = None, opt_demoBaseUrl = None \<rparr>"

fun is_mcp_route :: "route \<Rightarrow> bool" where
  "is_mcp_route (Mcp_token t) = True"
| "is_mcp_route Mcp = True"
| "is_mcp_route target = False"

fun path_token :: "route \<Rightarrow> string option" where
  "path_token (Mcp_token t) = (if t = [] then None else Some t)"
| "path_token target = None"

fun bearer_token :: "string option \<Rightarrow> string option" where
  "bearer_token None = None"
| "bearer_token (Some h) =
     (if starts_with ''Bearer '' h \<and> drop 7 h \<noteq> [] then Some (drop 7 h) else None)"

definition auth_hint :: reply_body where
  "auth_hint =
     Json_reply (JObj [(''error'', JStr ''Authentication required''),
                       (''hint'', JStr ''Provide token in URL path (/mcp/YOUR_TOKEN) or Authorization: Bearer header'')])"

text \<open>
  The value of the \<open>--token\<close> flag: the argument that follows the first \<open>--token\<close>;
  and a source that yields a token: a string that is not empty.
\<close>

fun flag_value :: "string list \<Rightarrow> string option" where
  "flag_value [] = None"
| "flag_value [a] = None"
| "flag_value (a # b # rest) = (if a = ''--token'' then Some b else flag_value (b # rest))"

fun nonempty :: "string option \<Rightarrow> string option" where
  "nonempty None = None"
| "nonempty (Some s) = (if s = [] then None else Some s)"

subsection \<open>Scenarios\<close>

text \<open>
  Concrete inputs: a client for the token \<open>abc123\<close>; an upstream that cannot be reached,
  one that answers 404 with a JSON body, and one that answers 502 with a body that is not
  JSON; the arguments of the \<open>create_taxpayer\<close> scenario; and the request of
  \<open>get_categories\<close>.
\<close>

definition client0 :: client where
  "client0 = new_client \<lparr> opt_token = ''abc123'', opt_appBaseUrl = None, opt_demoBaseUrl = None \<rparr>"

definition no_network :: upstream where
  "no_network req = Rejected_TypeError ''fetch failed''"

definition not_found :: upstream where
  "not_found req =
     Resolved \<lparr> status = 404, statusText = ''Not Found'',
                payload = Body ''{\"detail\":\"not found\"}''
                            (Inr (JObj [(''detail'', JStr ''not found'')])) \<rparr>"

definition bad_gateway :: upstream where
  "bad_gateway req =
     Resolved \<lparr> status = 502, statusText = ''Bad Gateway'',
                payload = Body ''<html>Bad Gateway</html>''
                            (Inl ''Unexpected token < in JSON at position 0'') \<rparr>"

definition scenario_values :: "string \<Rightarrow> string" where
  "scenario_values a =
     (if a = ''accountantId'' then ''2896''
      else if a = ''rfc'' then ''ZAHM8212203I2''
      else if a = ''ciec'' then ''secret''
      else [])"

definition categories_request :: http_request where
  "categories_request =
     \<lparr> url = ''https://demo.taxo.co/api/categorization/categories'',
       http_method = ''GET'',
       headers = [(''Accept'', ''application/json''), (''Content-Type'', ''application/json''),
                  (''Authorization'', ''Bearer abc123'')],
       body = None \<rparr>"

text \<open>
  The issue that zod raises for a value of \<open>extractionType\<close> outside the enumeration.
\<close>

definition extractionType_issue :: "json option \<Rightarrow> zod_issue" where
  "extractionType_issue v =
     (case v of
        Some (JStr s) \<Rightarrow> Invalid_enum_value s [''all'', ''issued'', ''received''] [''extractionType'']
      | _ \<Rightarrow> Invalid_enum_type (join_values [''all'', ''issued'', ''received'']) (parsed_type v)
               [''extractionType''])"

section \<open>Facts about the model\<close>

subsection \<open>Validation\<close>

lemma zod_object_parse_throws:
  "zod_object_parse shape args = Inl e \<Longrightarrow> \<exists>issues. e = ZodError issues \<and> issues \<noteq> []"
  by (cases args) (auto simp add: zod_object_parse_def Let_def simp del: concat_eq_Nil_conv split: if_splits)

lemma zod_object_parse_ok:
  assumes "concat (map (\<lambda>(k, t). issues_of (zod_parse_value t k (map_of data k))) shape) = []"
  shows "zod_object_parse shape (Some data) =
           Inr (concat (map (\<lambda>(k, t). entry_of k (zod_parse_value t k (map_of data k))) shape))"
proof -
  have 1: "map (\<lambda>(key, r). issues_of r) (map (\<lambda>(key, t). (key, zod_parse_value t key (map_of data key))) shape)
        = map (\<lambda>(k, t). issues_of (zod_parse_value t k (map_of data k))) shape"
    by (simp add: case_prod_beta)
  have 2: "map (\<lambda>(key, r). entry_of key r) (map (\<lambda>(key, t). (key, zod_parse_value t key (map_of data key))) shape)
        = map (\<lambda>(k, t). entry_of k (zod_parse_value t k (map_of data k))) shape"
    by (simp add: case_prod_beta)
  show ?thesis
    unfolding zod_object_parse_def Let_def option.case 1 2 using assms by simp
qed

lemma zod_enum_outside:
  "v \<notin> (\<lambda>s. Some (JStr s)) ` set opts \<Longrightarrow>
     zod_enum opts key v =
       Inl [case v of Some (JStr s) \<Rightarrow> Invalid_enum_value s opts [key]
            | _ \<Rightarrow> Invalid_enum_type (join_values opts) (parsed_type v) [key]]"
  by (cases "(opts, key, v)" rule: zod_enum.cases) auto

lemma enum_type_issue_written:
  "issue_json (Invalid_enum_type (join_values [''all'', ''issued'', ''received'']) ''undefined''
                 [''extractionType'']) =
     JObj [(''expected'', JStr ([CHR 0x27] @ ''all'' @ [CHR 0x27] @ '' | '' @ [CHR 0x27] @ ''issued''
                                 @ [CHR 0x27] @ '' | '' @ [CHR 0x27] @ ''received'' @ [CHR 0x27])),
           (''received'', JStr ''undefined''),
           (''code'', JStr ''invalid_type''),
           (''path'', JArr [JStr ''extractionType'']),
           (''message'', JStr ''Required'')]"
  by (simp add: join_values_def)

lemma parse_depends_on_map:
  "map_of args' = map_of args \<Longrightarrow>
     zod_object_parse shape (Some args') = zod_object_parse shape (Some args)"
  by (simp add: zod_object_parse_def)

subsection \<open>The client\<close>

lemmas client_defs =
  extractComplianceOpinionByRfc_def extractComplianceOpinionByAccountant_def
  extractComplianceOpinionAll_def getComplianceOpinion_def extractTaxStatusByRfc_def
  extractTaxStatusByAccountant_def extractTaxStatusAll_def getTaxStatus_def
  extractCfdiByRfc_def extractCfdiByAccountant_def getMonthlyTaxReport_def getContacts_def
  getInvoices_def getCategories_def createTaxpayer_def

lemma request_sent: "snd (request fetch c b p m bd) = [the_request c b p m bd]"
  by (simp add: request_def Let_def the_request_def)

lemma response_json_throws:
  "response_json r u = (Inl e, u') \<Longrightarrow> (\<exists>m. e = SyntaxError m) \<or> (\<exists>m. e = TypeError m)"
  by (auto simp: response_json_def split: if_splits payload.splits sum.splits)

lemma response_text_throws:
  "response_text r u = (Inl e, u') \<Longrightarrow> (\<exists>m. e = TypeError m)"
  by (auto simp: response_text_def split: if_splits payload.splits)

lemma request_api_error:
  assumes "fst (request fetch c b p m bd) = Inl (TaxoMxApiError sc msg d)"
  shows "\<exists>r v. fetch (the_request c b p m bd) = Resolved r \<and> \<not> ok r \<and> sc = status r
           \<and> msg = ''API request failed: '' @ statusText r \<and> d = Some v"
proof (cases "fetch (the_request c b p m bd)")
  case (Resolved r)
  show ?thesis
  proof (cases "ok r")
    case True
    with assms Resolved show ?thesis
      by (auto simp: request_def Let_def the_request_def split: prod.splits sum.splits
               dest: response_json_throws)
  next
    case False
    with assms Resolved show ?thesis
      by (auto simp: request_def Let_def the_request_def split: prod.splits sum.splits
               dest: response_json_throws response_text_throws)
  qed
next
  case (Rejected_TypeError x)
  with assms show ?thesis by (simp add: request_def Let_def the_request_def)
next
  case (Rejected_value x)
  with assms show ?thesis by (simp add: request_def Let_def the_request_def)
qed

lemma request_json_error_body:
  assumes "fetch (the_request c b p m bd) = Resolved r" "\<not> ok r" "payload r = Body raw (Inr v)"
  shows "request fetch c b p m bd =
           (Inl (TaxoMxApiError (status r) (''API request failed: '' @ statusText r) (Some v)),
            [the_request c b p m bd])"
  using assms
  by (simp add: request_def Let_def the_request_def[symmetric] response_json_def unusable_def)

lemma request_text_error_body:
  assumes "fetch (the_request c b p m bd) = Resolved r" "\<not> ok r" "payload r = Body raw (Inl syn)"
  shows "request fetch c b p m bd = (Inl (TypeError body_unusable), [the_request c b p m bd])"
  using assms
  by (simp add: request_def Let_def the_request_def[symmetric] response_json_def
        response_text_def unusable_def)

lemma request_null_error_body:
  assumes "fetch (the_request c b p m bd) = Resolved r" "\<not> ok r" "payload r = Null_body"
  shows "request fetch c b p m bd =
           (Inl (TaxoMxApiError (status r) (''API request failed: '' @ statusText r) (Some (JStr []))),
            [the_request c b p m bd])"
  using assms
  by (simp add: request_def Let_def the_request_def[symmetric] response_json_def
        response_text_def unusable_def)

subsection \<open>The handler\<close>

lemma switch_outcome_request: "switch_outcome fetch c nm (request fetch c b p m bd)"
  unfolding switch_outcome_def by blast

lemma switch_outcome_after_parse:
  "switch_outcome fetch c nm
     (after_parse (zod_object_parse shape args)
        (\<lambda>input. request fetch c (B input) (P input) (M input) (BD input)))"
proof (cases "zod_object_parse shape args")
  case (Inl e)
  then show ?thesis using zod_object_parse_throws[OF Inl] by (auto simp: switch_outcome_def)
next
  case (Inr input)
  then show ?thesis by (simp add: switch_outcome_request)
qed

lemma switch_outcome_unknown: "switch_outcome fetch c nm (Inl (Error (''Unknown tool: '' @ nm)), [])"
  by (simp add: switch_outcome_def)

lemma switch_shape: "switch_outcome fetch c nm (call_tool_switch tr fetch c nm args)"
  unfolding call_tool_switch_def client_defs
  by (simp only: switch_outcome_after_parse switch_outcome_request switch_outcome_unknown if_split  HOL.simp_thms)

lemma switch_unknown: "call_tool_switch tr fetch c ''no_such_tool'' args = (Inl (Error ''Unknown tool: no_such_tool''), [])"
  by (simp add: call_tool_switch_def)

lemma call_tool_sent: "snd (call_tool tr fetch c nm args) = snd (call_tool_switch tr fetch c nm args)"
  by (cases "call_tool_switch tr fetch c nm args") (auto simp: call_tool_def split: sum.splits)

lemma call_tool_caught:
  "call_tool_switch tr fetch c nm args = (Inl e, sent) \<Longrightarrow>
     call_tool tr fetch c nm args = (Inr (catch_block e), sent)"
  by (simp add: call_tool_def)

lemma call_tool_depends_on_map:
  assumes "map_of args' = map_of args"
  shows "call_tool tr fetch c nm (Some args') = call_tool tr fetch c nm (Some args)"
proof -
  have "call_tool_switch tr fetch c nm (Some args') = call_tool_switch tr fetch c nm (Some args)"
    unfolding call_tool_switch_def by (simp only: parse_depends_on_map[OF assms])
  then show ?thesis by (simp add: call_tool_def)
qed

lemma catch_block_api:
  "catch_block (TaxoMxApiError sc msg (Some v)) =
     error_result (JObj [(''error'', JBool True), (''statusCode'', JNum (int sc)),
                         (''message'', JStr msg), (''details'', v)])"
  by (simp add: catch_block_def error_envelope_def error_result_def)

lemma catch_block_other:
  "\<not> instanceof_TaxoMxApiError e \<Longrightarrow>
     catch_block e =
       error_result
         (JObj [(''error'', JBool True),
                (''message'',
                 JStr (if instanceof_Error e then message_of e else ''An unknown error occurred''))])"
  by (cases e) (simp_all add: catch_block_def error_envelope_def error_result_def)

lemma catch_block_shape:
  "isError (catch_block e) = Some True \<and>
   (\<exists>msg sc d. content (catch_block e) = [Text_content (JSON_stringify_pretty (error_shape msg sc d))])"
proof (cases "instanceof_TaxoMxApiError e")
  case True
  then obtain sc msg d where e: "e = TaxoMxApiError sc msg d" by (cases e) auto
  have "content (catch_block e) = [Text_content (JSON_stringify_pretty (error_shape msg (Some sc) d))]"
    by (simp add: e catch_block_def error_envelope_def error_shape_def)
  moreover have "isError (catch_block e) = Some True"
    by (simp add: e catch_block_def error_envelope_def)
  ultimately show ?thesis by blast
next
  case False
  let ?m = "if instanceof_Error e then message_of e else ''An unknown error occurred''"
  have "content (catch_block e) = [Text_content (JSON_stringify_pretty (error_shape ?m None None))]"
    using catch_block_other[OF False] by (simp add: error_result_def error_shape_def)
  moreover have "isError (catch_block e) = Some True"
    using catch_block_other[OF False] by (simp add: error_result_def)
  ultimately show ?thesis by blast
qed

subsection \<open>The catalog and the operation table\<close>

lemma signatures:
  "map signature (TOOLS tr) =
     [(''extract_compliance_opinion'', [''rfc''], []),
      (''extract_compliance_opinion_by_accountant'', [''accountantId''], []),
      (''extract_compliance_opinion_all'', [], []),
      (''get_compliance_opinion'', [''rfc''], []),
      (''extract_tax_status'', [''rfc''], []),
      (''extract_tax_status_by_accountant'', [''accountantId''], []),
      (''extract_tax_status_all'', [], []),
      (''get_tax_status'', [''rfc''], []),
      (''extract_cfdi'', [''rfc'', ''startDate'', ''endDate'', ''extractionType''],
         [(''extractionType'', [''all'', ''issued'', ''received''])]),
      (''extract_cfdi_by_accountant'', [''accountantId'', ''startDate'', ''endDate''], []),
      (''get_monthly_tax_report'', [''rfc'', ''year'', ''month''], []),
      (''get_contacts'', [''rfc''], []),
      (''get_invoices'', [''rfc''], []),
      (''get_categories'', [], []),
      (''create_taxpayer'', [''accountantId'', ''rfc'', ''ciec''], [])]"
  by (cases tr)
     (simp_all add: TOOLS_http_def TOOLS_stdio_def signature_def required_parameters_def
        enum_constraints_def)

lemma table_lists_the_catalog: "map op_name spec_table = map name (TOOLS tr)"
  by (cases tr) (simp_all add: spec_table_def TOOLS_http_def TOOLS_stdio_def)

lemma snake_examples:
  "snake_case ''accountantId'' = ''accountant_id''"
  "snake_case ''startDate'' = ''start_date''"
  "snake_case ''endDate'' = ''end_date''"
  "snake_case ''extractionType'' = ''extraction_type''"
  "snake_case ''rfc'' = ''rfc''"
  "snake_case ''ciec'' = ''ciec''"
  by (simp_all add: snake_case_def lower_of_def)

lemmas schema_defs =
  rfcSchema_def accountantIdSchema_def extractCfdiSchema_def extractCfdiAccountantSchema_def
  taxReportSchema_def createTaxpayerSchema_def

lemmas conform_simps =
  conforms_def call_tool_sent spec_table_def call_tool_switch_def zod_object_parse_def schema_defs
  Let_def client_defs request_sent the_request_def documented_request_def host_url_def
  render_path_def argument_for_def snake_case_def lower_of_def prop_string_def

lemma conforms_extract_compliance_opinion: "conforms tr fetch c v ''extract_compliance_opinion'' [''rfc'']"
  by (simp add: conform_simps)

lemma conforms_extract_compliance_opinion_by_accountant: "conforms tr fetch c v ''extract_compliance_opinion_by_accountant'' [''accountantId'']"
  by (simp add: conform_simps)

lemma conforms_extract_compliance_opinion_all: "conforms tr fetch c v ''extract_compliance_opinion_all'' []"
  by (simp add: conform_simps)

lemma conforms_get_compliance_opinion: "conforms tr fetch c v ''get_compliance_opinion'' [''rfc'']"
  by (simp add: conform_simps)

lemma conforms_extract_tax_status: "conforms tr fetch c v ''extract_tax_status'' [''rfc'']"
  by (simp add: conform_simps)

lemma conforms_extract_tax_status_by_accountant: "conforms tr fetch c v ''extract_tax_status_by_accountant'' [''accountantId'']"
  by (simp add: conform_simps)

lemma conforms_extract_tax_status_all: "conforms tr fetch c v ''extract_tax_status_all'' []"
  by (simp add: conform_simps)

lemma conforms_get_tax_status: "conforms tr fetch c v ''get_tax_status'' [''rfc'']"
  by (simp add: conform_simps)

lemma conforms_extract_cfdi:
  "v ''extractionType'' \<in> set [''all'', ''issued'', ''received''] \<Longrightarrow>
   conforms tr fetch c v ''extract_cfdi'' [''rfc'', ''startDate'', ''endDate'', ''extractionType'']"
  by (simp add: conform_simps)

lemma conforms_extract_cfdi_by_accountant:
  "conforms tr fetch c v ''extract_cfdi_by_accountant'' [''accountantId'', ''startDate'', ''endDate'']"
  by (simp add: conform_simps)

lemma conforms_get_monthly_tax_report: "conforms tr fetch c v ''get_monthly_tax_report'' [''rfc'', ''year'', ''month'']"
  by (simp add: conform_simps)

lemma conforms_get_contacts: "conforms tr fetch c v ''get_contacts'' [''rfc'']"
  by (simp add: conform_simps)

lemma conforms_get_invoices: "conforms tr fetch c v ''get_invoices'' [''rfc'']"
  by (cases tr)
     (simp_all add: conform_simps invoices_path_def invoice_params_def rest_entries_def
        params_toString_def)

lemma conforms_get_categories: "conforms tr fetch c v ''get_categories'' []"
  by (simp add: conform_simps)

lemma conforms_create_taxpayer: "conforms tr fetch c v ''create_taxpayer'' [''accountantId'', ''rfc'', ''ciec'']"
  by (simp add: conform_simps)

subsection \<open>Invoice queries\<close>

lemma getInvoicesSchema_keys:
  "getInvoicesSchema tr = (''rfc'', ZString) # map (\<lambda>k. (k, ZOptional_string)) (filter_keys tr)"
  by (cases tr) simp_all

lemma filter_keys_from_catalog:
  "filter_keys tr =
     filter (\<lambda>k. k \<notin> set (case required (inputSchema (TOOLS tr ! 12)) of None \<Rightarrow> [] | Some ks \<Rightarrow> ks))
       (map fst (properties (inputSchema (TOOLS tr ! 12))))"
  by (cases tr) (simp_all add: TOOLS_http_def TOOLS_stdio_def)

lemma optional_ok:
  "(case v of None \<Rightarrow> True | Some (JStr s) \<Rightarrow> True | _ \<Rightarrow> False) \<Longrightarrow>
     issues_of (zod_parse_value ZOptional_string k v) = [] \<and>
     entry_of k (zod_parse_value ZOptional_string k v) = (case v of None \<Rightarrow> [] | Some j \<Rightarrow> [(k, j)])"
  by (cases v) (auto split: json.splits)

lemma optional_issues:
  "list_all (\<lambda>k. case map_of args k of None \<Rightarrow> True | Some (JStr s) \<Rightarrow> True | _ \<Rightarrow> False) ks \<Longrightarrow>
     concat (map (\<lambda>(k, t). issues_of (zod_parse_value t k (map_of args k)))
               (map (\<lambda>k. (k, ZOptional_string)) ks)) = []"
  by (induction ks) (simp_all add: optional_ok del: zod_parse_value.simps)

lemma optional_params:
  "list_all (\<lambda>k. case map_of args k of None \<Rightarrow> True | Some (JStr s) \<Rightarrow> True | _ \<Rightarrow> False) ks \<Longrightarrow>
   key \<notin> set ks \<Longrightarrow>
     invoice_params (Some (rest_entries key (pre @
        concat (map (\<lambda>(k, t). entry_of k (zod_parse_value t k (map_of args k)))
               (map (\<lambda>k. (k, ZOptional_string)) ks)))))
     = invoice_params (Some (rest_entries key pre)) @ concat (map (supplied args) ks)"
proof (induction ks arbitrary: pre)
  case Nil
  then show ?case by simp
next
  case (Cons k ks)
  have ok: "entry_of k (zod_parse_value ZOptional_string k (map_of args k))
             = (case map_of args k of None \<Rightarrow> [] | Some j \<Rightarrow> [(k, j)])"
    using Cons.prems(1) by (simp add: optional_ok del: zod_parse_value.simps)
  have step: "invoice_params (Some (rest_entries key (pre @ (case map_of args k of None \<Rightarrow> [] | Some j \<Rightarrow> [(k, j)]))))
        = invoice_params (Some (rest_entries key pre)) @ supplied args k"
    using Cons.prems
    by (auto simp: invoice_params_def rest_entries_def supplied_def split: option.splits json.splits)
  have "invoice_params (Some (rest_entries key (pre @
        concat (map (\<lambda>(k, t). entry_of k (zod_parse_value t k (map_of args k)))
               (map (\<lambda>k. (k, ZOptional_string)) (k # ks))))))
      = invoice_params (Some (rest_entries key ((pre @ (case map_of args k of None \<Rightarrow> [] | Some j \<Rightarrow> [(k, j)])) @
        concat (map (\<lambda>(k, t). entry_of k (zod_parse_value t k (map_of args k)))
               (map (\<lambda>k. (k, ZOptional_string)) ks)))))"
    by (simp add: ok del: zod_parse_value.simps)
  also have "\<dots> = invoice_params (Some (rest_entries key (pre @ (case map_of args k of None \<Rightarrow> [] | Some j \<Rightarrow> [(k, j)]))))
                   @ concat (map (supplied args) ks)"
    using Cons.IH[of "pre @ (case map_of args k of None \<Rightarrow> [] | Some j \<Rightarrow> [(k, j)])"] Cons.prems by simp
  finally show ?case by (simp add: step)
qed

lemma join_nonempty: "xs \<noteq> [] \<Longrightarrow> (\<forall>x \<in> set xs. x \<noteq> []) \<Longrightarrow> join sep xs \<noteq> []"
  by (induction sep xs rule: join.induct) auto

lemma params_toString_empty: "params_toString ps = [] \<longleftrightarrow> ps = []"
proof
  assume "params_toString ps = []"
  show "ps = []"
  proof (rule ccontr)
    assume "ps \<noteq> []"
    then have "join ''&'' (map (\<lambda>(k, v). urlencode k @ ''='' @ urlencode v) ps) \<noteq> []"
      by (intro join_nonempty) auto
    with \<open>params_toString ps = []\<close> show False by (simp add: params_toString_def)
  qed
qed (simp add: params_toString_def)

lemma get_invoices_switch:
  assumes rfc: "map_of args ''rfc'' = Some (JStr r)" and typed: "well_typed_filters tr args"
  shows "call_tool_switch tr fetch c ''get_invoices'' (Some args) =
           request fetch c (demoBaseUrl c)
             (''/api/v1/invoices/'' @ r @
                (if query_params tr args = [] then [] else ''?'' @ params_toString (query_params tr args)))
             None None"
proof -
  let ?opt = "concat (map (\<lambda>(k, t). entry_of k (zod_parse_value t k (map_of args k)))
               (map (\<lambda>k. (k, ZOptional_string)) (filter_keys tr)))"
  have noiss: "concat (map (\<lambda>(k, t). issues_of (zod_parse_value t k (map_of args k))) (getInvoicesSchema tr)) = []"
    using optional_issues[of args "filter_keys tr"] typed rfc
    by (simp add: getInvoicesSchema_keys well_typed_filters_def)
  have parse: "zod_object_parse (getInvoicesSchema tr) (Some args) = Inr ((''rfc'', JStr r) # ?opt)"
    using zod_object_parse_ok[OF noiss] rfc by (simp add: getInvoicesSchema_keys)
  have norfc: "''rfc'' \<notin> set (filter_keys tr)" by (cases tr) simp_all
  have "invoice_params (Some (rest_entries ''rfc'' ([(''rfc'', JStr r)] @ ?opt)))
      = invoice_params (Some (rest_entries ''rfc'' [(''rfc'', JStr r)])) @ concat (map (supplied args) (filter_keys tr))"
    using optional_params[of args "filter_keys tr" "''rfc''" "[(''rfc'', JStr r)]"] typed norfc
    by (simp add: well_typed_filters_def)
  then have params: "invoice_params (Some (rest_entries ''rfc'' ((''rfc'', JStr r) # ?opt))) = query_params tr args"
    by (simp add: query_params_def invoice_params_def rest_entries_def)
  have path: "invoices_path r (Some (rest_entries ''rfc'' ((''rfc'', JStr r) # ?opt)))
      = ''/api/v1/invoices/'' @ r @
                (if query_params tr args = [] then [] else ''?'' @ params_toString (query_params tr args))"
    unfolding invoices_path_def Let_def params by (simp add: params_toString_empty)
  have sw: "call_tool_switch tr fetch c ''get_invoices'' (Some args) =
      after_parse (zod_object_parse (getInvoicesSchema tr) (Some args))
        (\<lambda>input. getInvoices fetch c (prop_string input ''rfc'') (Some (rest_entries ''rfc'' input)))"
    by (simp add: call_tool_switch_def)
  have ps: "prop_string ((''rfc'', JStr r) # ?opt) ''rfc'' = r"
    by (simp add: prop_string_def)
  show ?thesis
    unfolding sw parse after_parse.simps getInvoices_def ps path ..
qed

lemma query_params_set:
  "set (query_params tr args) =
     {(k, s). k \<in> set (filter_keys tr) \<and> map_of args k = Some (JStr s) \<and> s \<noteq> []}"
  by (auto simp: query_params_def supplied_def split: option.splits json.splits if_splits)

lemma supplied_fst:
  "map fst (supplied args k) = (if supplied args k = [] then [] else [k])"
  by (simp add: supplied_def split: option.splits json.splits)

lemma concat_supplied_keys:
  "map fst (concat (map (supplied args) ks)) = filter (\<lambda>k. supplied args k \<noteq> []) ks"
  by (induction ks) (simp_all add: supplied_fst)

lemma query_params_distinct: "distinct (map fst (query_params tr args))"
proof -
  have "distinct (filter_keys tr)" by (cases tr) simp_all
  then show ?thesis by (simp add: query_params_def concat_supplied_keys)
qed

subsection \<open>The scenarios\<close>

lemma stringify_rfc_ciec:
  "JSON_stringify (JObj [(''rfc'', JStr ''ZAHM8212203I2''), (''ciec'', JStr ''secret'')]) =
     ''{\"rfc\":\"ZAHM8212203I2\",\"ciec\":\"secret\"}''"
  by (simp add: JSON_stringify_def quote_def escape_char_def)

lemma categories_switch:
  "call_tool_switch tr fetch client0 ''get_categories'' args =
     request fetch client0 ''https://demo.taxo.co'' ''/api/categorization/categories'' None None"
  by (simp add: call_tool_switch_def getCategories_def client0_def new_client_def)

lemma categories_the_request:
  "the_request client0 ''https://demo.taxo.co'' ''/api/categorization/categories'' None None
     = categories_request"
  by (simp add: the_request_def categories_request_def client0_def new_client_def request_headers_def)

lemma categories_rejected:
  "call_tool_switch tr (\<lambda>req. Rejected_value v) client0 ''get_categories'' args =
     (Inl (Thrown_value v), [categories_request])"
  unfolding categories_switch
  by (simp add: request_def Let_def categories_request_def client0_def new_client_def
        request_headers_def)

lemma upstream_404_scenario:
  "call_tool Http not_found client0 ''get_categories'' None =
     (Inr (error_result
        (JObj [(''error'', JBool True), (''statusCode'', JNum 404),
               (''message'', JStr ''API request failed: Not Found''),
               (''details'', JObj [(''detail'', JStr ''not found'')])])),
      [categories_request])"
proof -
  have "call_tool_switch Http not_found client0 ''get_categories'' None =
          (Inl (TaxoMxApiError 404 ''API request failed: Not Found''
                  (Some (JObj [(''detail'', JStr ''not found'')]))), [categories_request])"
    unfolding categories_switch
    using request_json_error_body[of not_found client0 "''https://demo.taxo.co''"
            "''/api/categorization/categories''" None None _ _
            "JObj [(''detail'', JStr ''not found'')]"]
    by (simp add: not_found_def ok_def categories_the_request)
  from call_tool_caught[OF this] show ?thesis by (simp add: catch_block_api)
qed

subsection \<open>The command line\<close>

lemma indexOf_flag_value:
  "(case indexOf args ''--token'' of None \<Rightarrow> None | Some i \<Rightarrow> element_at args (i + 1))
     = flag_value args"
proof (induction args rule: flag_value.induct)
  case 1
  then show ?case by simp
next
  case (2 a)
  then show ?case by (simp add: element_at_def)
next
  case (3 a b rest)
  then show ?case
    by (auto simp: element_at_def split: option.splits)
qed

lemma getToken_flag:
  "nonempty (flag_value (drop 2 argv)) = Some t \<Longrightarrow> getToken argv env = (Inr t, [])"
  using indexOf_flag_value[of "drop 2 argv"]
  by (auto simp: getToken_def Let_def split: option.splits if_splits
           elim!: nonempty.elims)

lemma getToken_no_flag:
  "nonempty (flag_value (drop 2 argv)) = None \<Longrightarrow>
     getToken argv env =
       (case nonempty (env ''TAXO_MX_TOKEN'') of
          Some t \<Rightarrow> (Inr t, [])
        | None \<Rightarrow> (Inl 1, [''Error: Taxo MX token required'',
                         ''Provide via --token argument or TAXO_MX_TOKEN environment variable'']))"
  using indexOf_flag_value[of "drop 2 argv"]
  by (cases "env ''TAXO_MX_TOKEN''")
     (auto simp: getToken_def Let_def split: option.splits if_splits elim!: nonempty.elims)

section \<open>The claims\<close>

text \<open>
  Claim C1. For every operation of the catalog, of either entry point, a call with a
  minimal valid argument set hands exactly one request to \<open>fetch\<close>, and it is the request
  that the operation's row of the table documents: the row's host (the primary host for the
  extraction and taxpayer operations, the secondary host for reports, contacts, invoices
  and categories), its path and its method, with the body's keys renamed to the upstream's
  convention (\<open>accountantId\<close> becomes \<open>accountant_id\<close>).
\<close>

theorem every_operation_sends_its_documented_request:
  assumes "t \<in> set (TOOLS tr)" and "allowed_values t v"
  shows "\<exists>row. find (\<lambda>row. op_name row = name t) spec_table = Some row \<and>
           snd (call_tool tr fetch c (name t) (Some (minimal_arguments t v))) =
             [documented_request c row (required_parameters t) v]"
proof -
  from assms(1) have "signature t \<in> set (map signature (TOOLS tr))" by simp
  then have "conforms tr fetch c v (name t) (required_parameters t)"
    unfolding signatures using assms(2)
    by (auto simp: signature_def allowed_values_def
          conforms_extract_compliance_opinion conforms_extract_compliance_opinion_by_accountant
          conforms_extract_compliance_opinion_all conforms_get_compliance_opinion
          conforms_extract_tax_status conforms_extract_tax_status_by_accountant
          conforms_extract_tax_status_all conforms_get_tax_status conforms_extract_cfdi
          conforms_extract_cfdi_by_accountant conforms_get_monthly_tax_report
          conforms_get_contacts conforms_get_invoices conforms_get_categories
          conforms_create_taxpayer)
  then show ?thesis by (simp add: conforms_def minimal_arguments_def)
qed

text \<open>
  The \<open>create_taxpayer\<close> scenario of the specification: one POST to
  \<open>/api/v1/accountant/2896/clients\<close> on the primary host, with the body
  \<open>{rfc, ciec}\<close>.
\<close>

theorem every_operation_sends_its_documented_request_witness:
  "snd (call_tool Http no_network client0 ''create_taxpayer''
          (Some [(''accountantId'', JStr ''2896''), (''rfc'', JStr ''ZAHM8212203I2''),
                 (''ciec'', JStr ''secret'')])) =
     [\<lparr> url = ''https://app.taxo.co/api/v1/accountant/2896/clients'',
        http_method = ''POST'',
        headers = [(''Accept'', ''application/json''), (''Content-Type'', ''application/json''),
                   (''Authorization'', ''Bearer abc123'')],
        body = Some ''{\"rfc\":\"ZAHM8212203I2\",\"ciec\":\"secret\"}'' \<rparr>]"
proof -
  have m: "TOOLS Http ! 14 \<in> set (TOOLS Http)" by (simp add: TOOLS_http_def)
  have a: "allowed_values (TOOLS Http ! 14) scenario_values"
    by (simp add: TOOLS_http_def allowed_values_def enum_constraints_def)
  have n: "name (TOOLS_http ! 14) = ''create_taxpayer''" by (simp add: TOOLS_http_def)
  have r: "required_parameters (TOOLS_http ! 14) = [''accountantId'', ''rfc'', ''ciec'']"
    by (simp add: TOOLS_http_def required_parameters_def)
  from every_operation_sends_its_documented_request[OF m a, of no_network client0]
  show ?thesis
    by (simp add: n r spec_table_def minimal_arguments_def documented_request_def host_url_def
          render_path_def argument_for_def snake_case_def lower_of_def scenario_values_def
          client0_def new_client_def request_headers_def stringify_rfc_ciec)
qed

text \<open>
  Claim C2. Whatever the name and the arguments of a tool call and however the upstream
  behaves, the handler returns an envelope and nothing escapes from it; when validation or
  the call of the upstream has thrown, of whatever kind the thrown value is, the envelope
  has the error flag set and its text is a payload of the shape
  \<open>{error: true, message, statusCode?, details?}\<close>; when nothing was thrown the envelope
  has no error flag and its text is the pretty-printed result.
\<close>

theorem every_failure_becomes_an_error_envelope:
  "\<exists>env. fst (call_tool tr fetch c nm args) = Inr env \<and>
     (\<forall>e. fst (call_tool_switch tr fetch c nm args) = Inl e \<longrightarrow>
        isError env = Some True \<and>
        (\<exists>msg sc d. content env = [Text_content (JSON_stringify_pretty (error_shape msg sc d))])) \<and>
     (\<forall>result. fst (call_tool_switch tr fetch c nm args) = Inr result \<longrightarrow>
        isError env = None \<and> content env = [Text_content (JSON_stringify_pretty result)])"
proof (cases "call_tool_switch tr fetch c nm args")
  case (Pair res sent)
  show ?thesis
  proof (cases res)
    case (Inl e)
    with Pair show ?thesis using catch_block_shape[of e] by (simp add: call_tool_def)
  next
    case (Inr result)
    with Pair show ?thesis by (simp add: call_tool_def)
  qed
qed

text \<open>
  A call of \<open>get_categories\<close> whose \<open>fetch\<close> rejects with a value that is no Error, and
  a call of an operation that the handler does not know.
\<close>

theorem every_failure_becomes_an_error_envelope_witness:
  "(\<exists>env. fst (call_tool Stdio (\<lambda>req. Rejected_value JNull) client0 ''get_categories'' None) = Inr env
         \<and> isError env = Some True
         \<and> (\<exists>msg sc d. content env = [Text_content (JSON_stringify_pretty (error_shape msg sc d))]))
   \<and> (\<exists>env. fst (call_tool Http no_network client0 ''no_such_tool'' None) = Inr env
         \<and> isError env = Some True
         \<and> (\<exists>msg sc d. content env = [Text_content (JSON_stringify_pretty (error_shape msg sc d))]))"
  using every_failure_becomes_an_error_envelope
          [of Stdio "\<lambda>req. Rejected_value JNull" client0 "''get_categories''" None]
        every_failure_becomes_an_error_envelope
          [of Http no_network client0 "''no_such_tool''" None]
  by (simp add: switch_unknown categories_rejected)

text \<open>
  Claim C3. The client is to fall back to the raw text of a response body that is not JSON
  and to fail with an upstream error that carries the status code. It does so for a JSON
  body (\<open>upstream_404_scenario\<close>, \<open>request_json_error_body\<close>), but not for any other
  body: \<open>response.json()\<close> has read the body when it fails, so \<open>response.text()\<close>
  rejects with a TypeError (\<open>request_text_error_body\<close>), and the envelope carries that
  TypeError's message and neither \<open>statusCode\<close> nor \<open>details\<close>. Here the upstream
  answers 502 with an HTML body.
\<close>

theorem raw_text_fallback_is_lost:
  "call_tool Http bad_gateway client0 ''get_categories'' None =
     (Inr (error_result
        (JObj [(''error'', JBool True),
               (''message'', JStr ''Body is unusable: Body has already been read'')])),
      [categories_request])"
proof -
  have "call_tool_switch Http bad_gateway client0 ''get_categories'' None =
          (Inl (TypeError body_unusable), [categories_request])"
    unfolding categories_switch
    using request_text_error_body[of bad_gateway client0 "''https://demo.taxo.co''"
            "''/api/categorization/categories''" None None]
    by (simp add: bad_gateway_def ok_def categories_the_request)
  from call_tool_caught[OF this] show ?thesis
    by (simp add: catch_block_other body_unusable_def)
qed

text \<open>
  Claim C4. For \<open>extract_cfdi\<close>, an \<open>extractionType\<close> that is absent or is not one
  of \<open>all\<close>, \<open>issued\<close>, \<open>received\<close> fails validation: the handler throws a ZodError
  whose issues include the one that names the property, what was received and the values
  allowed; no request goes out; and the caller gets an error envelope whose message is the
  list of the issues.
\<close>

theorem extract_cfdi_rejects_other_extraction_types:
  assumes "map_of args ''extractionType'' \<notin>
             {Some (JStr ''all''), Some (JStr ''issued''), Some (JStr ''received'')}"
  shows "\<exists>issues.
           extractionType_issue (map_of args ''extractionType'') \<in> set issues \<and>
           call_tool_switch tr fetch c ''extract_cfdi'' (Some args) = (Inl (ZodError issues), []) \<and>
           call_tool tr fetch c ''extract_cfdi'' (Some args) =
             (Inr (error_result
                (JObj [(''error'', JBool True),
                       (''message'', JStr (JSON_stringify_pretty (JArr (map issue_json issues))))])),
              [])"
proof -
  let ?v = "map_of args ''extractionType''"
  have out: "?v \<notin> (\<lambda>s. Some (JStr s)) ` set [''all'', ''issued'', ''received'']"
    using assms by auto
  have enum: "zod_enum [''all'', ''issued'', ''received''] ''extractionType'' ?v =
                Inl [extractionType_issue ?v]"
    unfolding extractionType_issue_def by (rule zod_enum_outside[OF out])
  define issues where
    "issues = issues_of (zod_string ''rfc'' (map_of args ''rfc''))
            @ issues_of (zod_string ''startDate'' (map_of args ''startDate''))
            @ issues_of (zod_string ''endDate'' (map_of args ''endDate''))
            @ [extractionType_issue ?v]"
  have parse: "zod_object_parse extractCfdiSchema (Some args) = Inl (ZodError issues)"
    by (simp add: zod_object_parse_def extractCfdiSchema_def Let_def enum issues_def)
  have sw: "call_tool_switch tr fetch c ''extract_cfdi'' (Some args) = (Inl (ZodError issues), [])"
    by (simp add: call_tool_switch_def parse)
  have "call_tool tr fetch c ''extract_cfdi'' (Some args) =
             (Inr (error_result
                (JObj [(''error'', JBool True),
                       (''message'', JStr (JSON_stringify_pretty (JArr (map issue_json issues))))])),
              [])"
    using call_tool_caught[OF sw] catch_block_other[of "ZodError issues"] by simp
  moreover have "extractionType_issue ?v \<in> set issues" by (simp add: issues_def)
  ultimately show ?thesis using sw by blast
qed

text \<open>
  An \<open>extractionType\<close> that is a string outside the enumeration, and one that is absent.
\<close>

theorem extract_cfdi_rejects_other_extraction_types_witness:
  "(\<exists>issues.
      Invalid_enum_value ''emitidos'' [''all'', ''issued'', ''received''] [''extractionType'']
        \<in> set issues \<and>
      call_tool_switch Http no_network client0 ''extract_cfdi''
        (Some [(''rfc'', JStr ''ZAHM8212203I2''), (''startDate'', JStr ''2025-01-01''),
               (''endDate'', JStr ''2025-01-31''), (''extractionType'', JStr ''emitidos'')])
        = (Inl (ZodError issues), []))
   \<and> (\<exists>issues.
      Invalid_enum_type (join_values [''all'', ''issued'', ''received'']) ''undefined''
          [''extractionType'']
        \<in> set issues \<and>
      call_tool_switch Stdio no_network client0 ''extract_cfdi''
        (Some [(''rfc'', JStr ''ZAHM8212203I2''), (''startDate'', JStr ''2025-01-01''),
               (''endDate'', JStr ''2025-01-31'')])
        = (Inl (ZodError issues), []))"
proof -
  have 1: "\<exists>issues.
      Invalid_enum_value ''emitidos'' [''all'', ''issued'', ''received''] [''extractionType'']
        \<in> set issues \<and>
      call_tool_switch Http no_network client0 ''extract_cfdi''
        (Some [(''rfc'', JStr ''ZAHM8212203I2''), (''startDate'', JStr ''2025-01-01''),
               (''endDate'', JStr ''2025-01-31''), (''extractionType'', JStr ''emitidos'')])
        = (Inl (ZodError issues), [])"
    using extract_cfdi_rejects_other_extraction_types
            [of "[(''rfc'', JStr ''ZAHM8212203I2''), (''startDate'', JStr ''2025-01-01''),
                  (''endDate'', JStr ''2025-01-31''), (''extractionType'', JStr ''emitidos'')]"
                Http no_network client0]
    by (auto simp: extractionType_issue_def)
  have 2: "\<exists>issues.
      Invalid_enum_type (join_values [''all'', ''issued'', ''received'']) ''undefined''
          [''extractionType'']
        \<in> set issues \<and>
      call_tool_switch Stdio no_network client0 ''extract_cfdi''
        (Some [(''rfc'', JStr ''ZAHM8212203I2''), (''startDate'', JStr ''2025-01-01''),
               (''endDate'', JStr ''2025-01-31'')])
        = (Inl (ZodError issues), [])"
    using extract_cfdi_rejects_other_extraction_types
            [of "[(''rfc'', JStr ''ZAHM8212203I2''), (''startDate'', JStr ''2025-01-01''),
                  (''endDate'', JStr ''2025-01-31'')]"
                Stdio no_network client0]
    by (auto simp: extractionType_issue_def)
  from 1 2 show ?thesis by (rule conjI)
qed

text \<open>
  Claim C5. For \<open>get_invoices\<close> with a string \<open>rfc\<close> and well-typed filters, one GET
  goes to the secondary host; its query holds exactly one parameter for each filter whose
  value is a non-empty string, so none when only \<open>rfc\<close> is supplied, and a filter that is
  absent or the empty string is left out; and the order of the properties of the argument
  object does not matter.
\<close>

theorem get_invoices_query_is_the_truthy_filters:
  assumes "map_of args ''rfc'' = Some (JStr r)" and "well_typed_filters tr args"
  shows "snd (call_tool tr fetch c ''get_invoices'' (Some args)) =
           [\<lparr> url = demoBaseUrl c @ ''/api/v1/invoices/'' @ r @
                     (if query_params tr args = [] then []
                      else ''?'' @ params_toString (query_params tr args)),
              http_method = ''GET'', headers = request_headers c, body = None \<rparr>]
       \<and> set (query_params tr args) =
           {(k, s). k \<in> set (filter_keys tr) \<and> map_of args k = Some (JStr s) \<and> s \<noteq> []}
       \<and> distinct (map fst (query_params tr args))
       \<and> ((\<forall>k \<in> set (filter_keys tr). map_of args k = None) \<longrightarrow> query_params tr args = [])
       \<and> (\<forall>args'. map_of args' = map_of args \<longrightarrow>
             call_tool tr fetch c ''get_invoices'' (Some args') =
             call_tool tr fetch c ''get_invoices'' (Some args))"
proof -
  have 1: "snd (call_tool tr fetch c ''get_invoices'' (Some args)) =
           [\<lparr> url = demoBaseUrl c @ ''/api/v1/invoices/'' @ r @
                     (if query_params tr args = [] then []
                      else ''?'' @ params_toString (query_params tr args)),
              http_method = ''GET'', headers = request_headers c, body = None \<rparr>]"
    unfolding call_tool_sent get_invoices_switch[OF assms] request_sent
    by (simp add: the_request_def)
  have 4: "\<forall>args'. map_of args' = map_of args \<longrightarrow>
             call_tool tr fetch c ''get_invoices'' (Some args') =
             call_tool tr fetch c ''get_invoices'' (Some args)"
    using call_tool_depends_on_map by blast
  have 3: "(\<forall>k \<in> set (filter_keys tr). map_of args k = None) \<longrightarrow> query_params tr args = []"
    by (simp add: query_params_def supplied_def)
  show ?thesis
    by (intro conjI) (rule 1, rule query_params_set, rule query_params_distinct, rule 3, rule 4)
qed

text \<open>
  Filters given in another order than the schema's, one of them empty; and \<open>rfc\<close>
  alone.
\<close>

theorem get_invoices_query_is_the_truthy_filters_witness:
  "snd (call_tool Http no_network client0 ''get_invoices''
         (Some [(''paymentWay'', JStr ''03''), (''month'', JStr []), (''year'', JStr ''2025''),
                (''rfc'', JStr ''ZAHM8212203I2'')])) =
     [\<lparr> url = ''https://demo.taxo.co/api/v1/invoices/ZAHM8212203I2?year=2025&paymentWay=03'',
        http_method = ''GET'',
        headers = [(''Accept'', ''application/json''), (''Content-Type'', ''application/json''),
                   (''Authorization'', ''Bearer abc123'')],
        body = None \<rparr>]
   \<and> snd (call_tool Http no_network client0 ''get_invoices''
         (Some [(''rfc'', JStr ''ZAHM8212203I2'')])) =
     [\<lparr> url = ''https://demo.taxo.co/api/v1/invoices/ZAHM8212203I2'',
        http_method = ''GET'',
        headers = [(''Accept'', ''application/json''), (''Content-Type'', ''application/json''),
                   (''Authorization'', ''Bearer abc123'')],
        body = None \<rparr>]"
proof -
  let ?a = "[(''paymentWay'', JStr ''03''), (''month'', JStr []), (''year'', JStr ''2025''),
             (''rfc'', JStr ''ZAHM8212203I2'')]"
  let ?b = "[(''rfc'', JStr ''ZAHM8212203I2'')]"
  have ra: "map_of ?a ''rfc'' = Some (JStr ''ZAHM8212203I2'')" by simp
  have wa: "well_typed_filters Http ?a" by (simp add: well_typed_filters_def)
  have qa: "query_params Http ?a = [(''year'', ''2025''), (''paymentWay'', ''03'')]"
    by (simp add: query_params_def supplied_def)
  have sa: "params_toString [(''year'', ''2025''), (''paymentWay'', ''03'')] = ''year=2025&paymentWay=03''"
    by (simp add: params_toString_def urlencode_def urlencode_byte_def is_alnum_def)
  have rb: "map_of ?b ''rfc'' = Some (JStr ''ZAHM8212203I2'')" by simp
  have wb: "well_typed_filters Http ?b" by (simp add: well_typed_filters_def)
  have qb: "query_params Http ?b = []" by (simp add: query_params_def supplied_def)
  note A = get_invoices_query_is_the_truthy_filters[OF ra wa, of no_network client0, THEN conjunct1]
  note B = get_invoices_query_is_the_truthy_filters[OF rb wb, of no_network client0, THEN conjunct1]
  show ?thesis
    unfolding A B by (simp add: qa sa qb client0_def new_client_def request_headers_def)
qed

text \<open>
  Claim C6. The catalogs of the two entry points are to be the same, and the standard-I/O
  server says of its own that it is the same as the HTTP server's. They differ in one
  descriptor: \<open>get_invoices\<close> of the standard-I/O server lacks the properties
  \<open>issuer\<close>, \<open>paymentType\<close> and \<open>paymentWay\<close>. All other descriptors agree.
\<close>

theorem catalogs_differ_at_get_invoices:
  "TOOLS Http \<noteq> TOOLS Stdio
   \<and> name (TOOLS Http ! 12) = ''get_invoices'' \<and> name (TOOLS Stdio ! 12) = ''get_invoices''
   \<and> map fst (properties (inputSchema (TOOLS Http ! 12))) =
        [''rfc'', ''type'', ''year'', ''month'', ''status'', ''category'', ''search'',
         ''issuer'', ''paymentType'', ''paymentWay'']
   \<and> map fst (properties (inputSchema (TOOLS Stdio ! 12))) =
        [''rfc'', ''type'', ''year'', ''month'', ''status'', ''category'', ''search'']
   \<and> (TOOLS Http)[12 := TOOLS Stdio ! 12] = TOOLS Stdio"
  by (simp add: TOOLS_http_def TOOLS_stdio_def)

text \<open>
  Claim C7, as stated: the catalog has seventeen descriptors. It has not.
\<close>

theorem catalog_is_not_seventeen_tools: "length (tools (list_tools Http)) \<noteq> 17"
  by (simp add: list_tools_def TOOLS_http_def)

text \<open>
  Claim C7, amended. The catalog is a fixed sequence of fifteen descriptors (four for the
  compliance opinion, four for the tax status certificate, two for CFDI extraction, and
  one each for reports, contacts, invoices, categories and taxpayer creation), and every
  listing, however many are made, returns that sequence in that order.
\<close>

theorem catalog_is_fifteen_fixed_tools:
  "length (tools (list_tools tr)) = 15
   \<and> map name (tools (list_tools tr)) =
       [''extract_compliance_opinion'', ''extract_compliance_opinion_by_accountant'',
        ''extract_compliance_opinion_all'', ''get_compliance_opinion'',
        ''extract_tax_status'', ''extract_tax_status_by_accountant'',
        ''extract_tax_status_all'', ''get_tax_status'',
        ''extract_cfdi'', ''extract_cfdi_by_accountant'',
        ''get_monthly_tax_report'', ''get_contacts'', ''get_invoices'', ''get_categories'',
        ''create_taxpayer'']
   \<and> map (\<lambda>i. tools (list_tools tr)) [0..<n] = replicate n (TOOLS tr)"
proof -
  have "map (\<lambda>i. tools (list_tools tr)) [0..<n] = replicate n (TOOLS tr)"
    by (simp add: list_tools_def map_replicate_const)
  moreover have "length (tools (list_tools tr)) = 15"
    by (cases tr) (simp_all add: list_tools_def TOOLS_http_def TOOLS_stdio_def)
  moreover have "map name (tools (list_tools tr)) =
       [''extract_compliance_opinion'', ''extract_compliance_opinion_by_accountant'',
        ''extract_compliance_opinion_all'', ''get_compliance_opinion'',
        ''extract_tax_status'', ''extract_tax_status_by_accountant'',
        ''extract_tax_status_all'', ''get_tax_status'',
        ''extract_cfdi'', ''extract_cfdi_by_accountant'',
        ''get_monthly_tax_report'', ''get_contacts'', ''get_invoices'', ''get_categories'',
        ''create_taxpayer'']"
    by (cases tr) (simp_all add: list_tools_def TOOLS_http_def TOOLS_stdio_def)
  ultimately show ?thesis by blast
qed

text \<open>
  Claim C8, as stated: a request to \<open>/mcp\<close> that is not a POST is answered 405. An
  OPTIONS request is not: the CORS middleware answers it 200.
\<close>

theorem options_request_is_answered_by_cors:
  "''OPTIONS'' \<noteq> ''POST'' \<and> snd (app ''OPTIONS'' Mcp None) = Respond 200 (Text_reply ''OK'')
   \<and> (\<forall>b. snd (app ''OPTIONS'' Mcp None) \<noteq> Respond 405 b)"
  by (simp add: app_def)

text \<open>
  Claim C8, amended. On the routes \<open>/mcp\<close> and \<open>/mcp/:token\<close>: an OPTIONS request is
  answered 200 by the CORS middleware; any other request that is not a POST is answered
  405; a POST with a path token is served with that token, whatever the Authorization
  header; a POST without a path token and with an \<open>Authorization: Bearer\<close> header is
  served with the header's token; and a POST with neither is answered 401 with a hint.
\<close>

theorem mcp_endpoint_resolves_token:
  assumes "is_mcp_route target"
  shows "(meth = ''OPTIONS'' \<longrightarrow> snd (app meth target h) = Respond 200 (Text_reply ''OK''))
       \<and> (meth \<noteq> ''OPTIONS'' \<and> meth \<noteq> ''POST'' \<longrightarrow>
            (\<exists>b. snd (app meth target h) = Respond 405 (Json_reply b)))
       \<and> (\<forall>t. meth = ''POST'' \<and> path_token target = Some t \<longrightarrow>
            snd (app meth target h) = Mcp_exchange (fresh_client t))
       \<and> (\<forall>t. meth = ''POST'' \<and> path_token target = None \<and> bearer_token h = Some t \<longrightarrow>
            snd (app meth target h) = Mcp_exchange (fresh_client t))
       \<and> (meth = ''POST'' \<and> path_token target = None \<and> bearer_token h = None \<longrightarrow>
            snd (app meth target h) = Respond 401 auth_hint)"
proof (cases target)
  case (Mcp_token t)
  then show ?thesis
    by (cases h)
       (auto simp: app_def handleMcpRequest_def resolve_token_def fresh_client_def auth_hint_def
             split: option.splits)
next
  case Mcp
  then show ?thesis
    by (cases h)
       (auto simp: app_def handleMcpRequest_def resolve_token_def fresh_client_def auth_hint_def
             split: option.splits)
qed (use assms in simp_all)

theorem mcp_endpoint_resolves_token_witness:
  "snd (app ''POST'' (Mcp_token ''abc123'') (Some ''Bearer xyz'')) = Mcp_exchange (fresh_client ''abc123'')
   \<and> snd (app ''POST'' Mcp (Some ''Bearer xyz'')) = Mcp_exchange (fresh_client ''xyz'')
   \<and> snd (app ''POST'' Mcp None) = Respond 401 auth_hint
   \<and> (\<exists>b. snd (app ''GET'' Mcp None) = Respond 405 (Json_reply b))
   \<and> snd (app ''OPTIONS'' Mcp None) = Respond 200 (Text_reply ''OK'')"
  using mcp_endpoint_resolves_token[of "Mcp_token ''abc123''" "''POST''" "Some ''Bearer xyz''"]
        mcp_endpoint_resolves_token[of Mcp "''POST''" "Some ''Bearer xyz''"]
        mcp_endpoint_resolves_token[of Mcp "''POST''" None]
        mcp_endpoint_resolves_token[of Mcp "''GET''" None]
        mcp_endpoint_resolves_token[of Mcp "''OPTIONS''" None]
  by (simp add: starts_with_def)

text \<open>
  Claim C9. The standard-I/O server takes its token from the \<open>--token\<close> flag when the
  flag has a value, and otherwise from \<open>TAXO_MX_TOKEN\<close>, and serves with the one client
  made from it; when neither yields a token the process exits with code 1, having written
  two lines to the error stream, and serves nothing.
\<close>

theorem stdio_token_resolution:
  "(\<forall>t. nonempty (flag_value (drop 2 argv)) = Some t \<longrightarrow>
        stdio_main argv env = (Serving (fresh_client t), []))
   \<and> (\<forall>t. nonempty (flag_value (drop 2 argv)) = None \<and> nonempty (env ''TAXO_MX_TOKEN'') = Some t \<longrightarrow>
        stdio_main argv env = (Serving (fresh_client t), []))
   \<and> (nonempty (flag_value (drop 2 argv)) = None \<and> nonempty (env ''TAXO_MX_TOKEN'') = None \<longrightarrow>
        stdio_main argv env =
          (Exited 1, [''Error: Taxo MX token required'',
                      ''Provide via --token argument or TAXO_MX_TOKEN environment variable'']))"
  by (auto simp: stdio_main_def fresh_client_def getToken_flag getToken_no_flag)

theorem stdio_token_resolution_witness:
  "stdio_main [''node'', ''index.js'', ''--token'', ''abc123''] (\<lambda>k. if k = ''TAXO_MX_TOKEN'' then Some ''xyz'' else None)
     = (Serving (fresh_client ''abc123''), [])
   \<and> stdio_main [''node'', ''index.js''] (\<lambda>k. if k = ''TAXO_MX_TOKEN'' then Some ''xyz'' else None)
     = (Serving (fresh_client ''xyz''), [])
   \<and> stdio_main [''node'', ''index.js'', ''--token''] (\<lambda>k. None)
     = (Exited 1, [''Error: Taxo MX token required'',
                   ''Provide via --token argument or TAXO_MX_TOKEN environment variable''])"
  using stdio_token_resolution[of "[''node'', ''index.js'', ''--token'', ''abc123'']" "\<lambda>k. if k = ''TAXO_MX_TOKEN'' then Some ''xyz'' else None"]
        stdio_token_resolution[of "[''node'', ''index.js'']" "\<lambda>k. if k = ''TAXO_MX_TOKEN'' then Some ''xyz'' else None"]
        stdio_token_resolution[of "[''node'', ''index.js'', ''--token'']" "\<lambda>k. None"]
  by simp

text \<open>
  Claim C10. When the handler's \<open>switch\<close> has thrown, the payload of the envelope has
  \<open>statusCode\<close> and \<open>details\<close> only when the thrown value is the client's error for
  a response with a non-success status; for every other thrown value (a validation error,
  the error of an unknown tool, a network failure, a value that is no Error) the payload
  is \<open>{error: true, message}\<close> and nothing else.
\<close>

theorem only_upstream_status_errors_carry_status_and_details:
  assumes "call_tool_switch tr fetch c nm args = (Inl e, sent)"
  shows "(\<exists>req r v. sent = [req] \<and> fetch req = Resolved r \<and> \<not> ok r
            \<and> call_tool tr fetch c nm args =
                (Inr (error_result
                   (JObj [(''error'', JBool True), (''statusCode'', JNum (int (status r))),
                          (''message'', JStr (''API request failed: '' @ statusText r)),
                          (''details'', v)])), sent))
         \<or> (\<not> instanceof_TaxoMxApiError e
            \<and> (\<exists>msg. call_tool tr fetch c nm args =
                  (Inr (error_result (JObj [(''error'', JBool True), (''message'', JStr msg)])),
                   sent)))"
proof (cases "instanceof_TaxoMxApiError e")
  case False
  then show ?thesis
    using catch_block_other[OF False] call_tool_caught[OF assms] by auto
next
  case True
  then obtain sc msg d where e: "e = TaxoMxApiError sc msg d" by (cases e) auto
  from switch_shape[of fetch c nm tr args] assms e
  obtain b p m bd where rq: "request fetch c b p m bd = (Inl (TaxoMxApiError sc msg d), sent)"
    by (auto simp: switch_outcome_def)
  then have sent: "sent = [the_request c b p m bd]"
    using request_sent[of fetch c b p m bd] by simp
  from rq have "fst (request fetch c b p m bd) = Inl (TaxoMxApiError sc msg d)" by simp
  from request_api_error[OF this] obtain r v where
    r: "fetch (the_request c b p m bd) = Resolved r" "\<not> ok r" "sc = status r"
       "msg = ''API request failed: '' @ statusText r" "d = Some v" by blast
  show ?thesis
    using call_tool_caught[OF assms] e r sent by (auto simp: catch_block_api)
qed

theorem only_upstream_status_errors_carry_status_and_details_witness:
  "call_tool_switch Http not_found client0 ''get_categories'' None =
     (Inl (TaxoMxApiError 404 ''API request failed: Not Found''
             (Some (JObj [(''detail'', JStr ''not found'')]))), [categories_request])
   \<and> ((\<exists>req r v. [categories_request] = [req] \<and> not_found req = Resolved r \<and> \<not> ok r
            \<and> call_tool Http not_found client0 ''get_categories'' None =
                (Inr (error_result
                   (JObj [(''error'', JBool True), (''statusCode'', JNum (int (status r))),
                          (''message'', JStr (''API request failed: '' @ statusText r)),
                          (''details'', v)])), [categories_request]))
       \<or> (\<exists>msg. call_tool Http not_found client0 ''get_categories'' None =
                  (Inr (error_result (JObj [(''error'', JBool True), (''message'', JStr msg)])),
                   [categories_request])))"
proof -
  have h: "call_tool_switch Http not_found client0 ''get_categories'' None =
          (Inl (TaxoMxApiError 404 ''API request failed: Not Found''
                  (Some (JObj [(''detail'', JStr ''not found'')]))), [categories_request])"
    unfolding categories_switch
    using request_json_error_body[of not_found client0 "''https://demo.taxo.co''"
            "''/api/categorization/categories''" None None _ _
            "JObj [(''detail'', JStr ''not found'')]"]
    by (simp add: not_found_def ok_def categories_the_request)
  from only_upstream_status_errors_carry_status_and_details[OF h] h show ?thesis by blast
qed

end
